theory Spec2Isabelle
  imports Main "HOL-Library.Word"
begin

section \<open>Data model of simple\_kernel.py\<close>

text \<open>
  The kernel is a Python 2 program (it calls \<^verbatim>\<open>unicode\<close>). Its messages are lists of
  byte-string frames; four of the frames carry JSON texts. The JSON codec, the HMAC
  object and the uuid generator are library objects the program only calls, so they are
  parameters of the model (record \<open>env\<close>), and every theorem below holds for all of them.
\<close>

text \<open>
  What \<^verbatim>\<open>json.JSONDecoder().decode\<close> returns. A dict is kept as the list of its items
  (each key once); a float is kept as its \<^verbatim>\<open>repr\<close> text, which is what the encoder writes.
\<close>

datatype json =
    JNull
  | JBool bool
  | JInt int
  | JFloat string
  | JStr string
  | JArr "json list"
  | JObj "(string \<times> json) list"

text \<open>
  The exceptions that can reach the code under study. \<open>ZMQError\<close> carries its errno;
  \<open>Exception\<close> stands for any other subclass of Python's \<^verbatim>\<open>Exception\<close>, \<open>BaseException\<close> for
  what \<^verbatim>\<open>except Exception\<close> does not catch (KeyboardInterrupt, SystemExit).
\<close>

datatype exn =
    IndexError
  | KeyError
  | TypeError
  | ValueError
  | ZMQError int
  | Exception string
  | BaseException string

text \<open>
  The library objects: \<open>decode\<close> is \<^verbatim>\<open>None\<close> where the decoder raises ValueError;
  \<open>hmac_new key\<close> is \<^verbatim>\<open>hmac.HMAC(key, digestmod=...)\<close>; \<open>uuid4 k\<close> is the text of the
  \<open>k\<close>-th uuid the generator hands out.
\<close>

record 'h env =
  decode :: "string \<Rightarrow> json option"
  encode :: "json \<Rightarrow> string"
  secure_key :: string
  hmac_new :: "string \<Rightarrow> 'h"
  hmac_update :: "'h \<Rightarrow> string \<Rightarrow> 'h"
  hmac_digest :: "'h \<Rightarrow> 8 word list"
  uuid4 :: "nat \<Rightarrow> string"

datatype stream = Shell | IOPub

text \<open>
  The process state the shell handler touches: the global \<^verbatim>\<open>execution_count\<close>, the
  multipart messages handed to \<^verbatim>\<open>send_multipart\<close> (in order, with their stream), the
  number of uuids drawn so far, and the computed signatures written by \<^verbatim>\<open>print\<close>.
  The \<^verbatim>\<open>dprint\<close> debugging output is not part of the state.
\<close>

record kstate =
  execution_count :: int
  sent :: "(stream \<times> string list) list"
  uuid_drawn :: nat
  printed :: "string list"

section \<open>Utility functions\<close>

definition hexchar :: "nat \<Rightarrow> char" where
  "hexchar n = ''0123456789abcdef'' ! n"

definition hex_of_byte :: "8 word \<Rightarrow> string" where
  "hex_of_byte b = [hexchar (unat b div 16), hexchar (unat b mod 16)]"

text \<open>The library's \<^verbatim>\<open>hexdigest()\<close>: two lowercase hexadecimal digits for each digest byte.\<close>

definition hexdigest :: "'h env \<Rightarrow> 'h \<Rightarrow> string" where
  "hexdigest env h = concat (map hex_of_byte (hmac_digest env h))"

text \<open>The global \<^verbatim>\<open>auth = hmac.HMAC(secure_key, digestmod=...)\<close>.\<close>

definition auth :: "'h env \<Rightarrow> 'h" where
  "auth env = hmac_new env (secure_key env)"

text \<open>\<^verbatim>\<open>msg_id()\<close>: the text of a new uuid.\<close>

definition msg_id :: "'h env \<Rightarrow> kstate \<Rightarrow> string \<times> kstate" where
  "msg_id env st = (uuid4 env (uuid_drawn st), st\<lparr>uuid_drawn := uuid_drawn st + 1\<rparr>)"

text \<open>\<^verbatim>\<open>sign(msg_lst)\<close>: a copy of \<open>auth\<close>, updated with each element in turn.\<close>

definition sign :: "'h env \<Rightarrow> string list \<Rightarrow> string" where
  "sign env msg_lst = hexdigest env (foldl (hmac_update env) (auth env) msg_lst)"

definition send_multipart :: "stream \<Rightarrow> string list \<Rightarrow> kstate \<Rightarrow> kstate" where
  "send_multipart stream frames st = st\<lparr>sent := sent st @ [(stream, frames)]\<rparr>"

text \<open>\<^verbatim>\<open>send(stream, header, parent_header, metadata, content)\<close>; \<^verbatim>\<open>bytes\<close> is \<^verbatim>\<open>str\<close> in Python 2.\<close>

definition send :: "'h env \<Rightarrow> stream \<Rightarrow> json \<Rightarrow> json \<Rightarrow> json \<Rightarrow> json \<Rightarrow> kstate \<Rightarrow> kstate" where
  "send env stream header parent_header metadata content st =
     (let msg_lst = [encode env header, encode env parent_header,
                     encode env metadata, encode env content];
          signature = sign env msg_lst
      in send_multipart stream
           [''<IDS|MSG>'', signature, msg_lst ! 0, msg_lst ! 1, msg_lst ! 2, msg_lst ! 3] st)"

section \<open>The run loops\<close>

text \<open>
  One call of \<^verbatim>\<open>loop.start()\<close> (or of \<^verbatim>\<open>zmq.device\<close>) either returns or raises. A loop is
  run against the list of the outcomes of its successive calls; when the list is used up
  the next call does not come back and the loop is \<open>Blocked\<close> in it. The global
  \<^verbatim>\<open>exiting\<close> is assigned only at its initialisation, so it is one value for a run.
\<close>

datatype outcome = Returns | Raises exn

datatype loop_result = Exited | Raised exn | Blocked

definition EINTR :: int where
  "EINTR = 4"

fun run_thread :: "bool \<Rightarrow> outcome list \<Rightarrow> loop_result" where
  "run_thread exiting [] = Blocked"
| "run_thread exiting (Returns # rest) = Exited"
| "run_thread exiting (Raises (ZMQError errno) # rest) =
     (if errno = EINTR then run_thread exiting rest else Raised (ZMQError errno))"
| "run_thread exiting (Raises (BaseException n) # rest) = Raised (BaseException n)"
| "run_thread exiting (Raises e # rest) = (if exiting then Exited else Raised e)"

fun heartbeat_loop :: "bool \<Rightarrow> outcome list \<Rightarrow> loop_result" where
  "heartbeat_loop exiting calls =
     (if exiting then Exited
      else case calls of
        [] \<Rightarrow> Blocked
      | Returns # rest \<Rightarrow> Exited
      | Raises (ZMQError errno) # rest \<Rightarrow>
          (if errno = EINTR then heartbeat_loop exiting rest else Raised (ZMQError errno))
      | Raises e # rest \<Rightarrow> Raised e)"

section \<open>The shell handler\<close>

text \<open>\<^verbatim>\<open>msg[i]\<close> for \<open>i \<ge> 0\<close>, and \<^verbatim>\<open>msg[a:b]\<close>.\<close>

definition getitem :: "'a list \<Rightarrow> nat \<Rightarrow> exn + 'a" where
  "getitem msg i = (if i < length msg then Inr (msg ! i) else Inl IndexError)"

definition slice :: "'a list \<Rightarrow> nat \<Rightarrow> nat \<Rightarrow> 'a list" where
  "slice msg a b = take (b - a) (drop a msg)"

text \<open>\<^verbatim>\<open>d[key]\<close> with a string key: KeyError on a dict without it, TypeError on anything else.\<close>

fun subscript :: "json \<Rightarrow> string \<Rightarrow> exn + json" where
  "subscript (JObj items) key =
     (case map_of items key of None \<Rightarrow> Inl KeyError | Some v \<Rightarrow> Inr v)"
| "subscript _ key = Inl TypeError"

text \<open>\<^verbatim>\<open>while (msg[position] != "<IDS|MSG>"): position += 1\<close>\<close>

function scan_delim :: "string list \<Rightarrow> nat \<Rightarrow> exn + nat" where
  "scan_delim msg position =
     (if length msg \<le> position then Inl IndexError
      else if msg ! position \<noteq> ''<IDS|MSG>'' then scan_delim msg (position + 1)
      else Inr position)"
  by pat_completeness auto
termination
  by (relation "measure (\<lambda>(msg, position). length msg - position)") auto

declare scan_delim.simps [simp del]

text \<open>\<^verbatim>\<open>decode(msg[i])\<close>: the index is read first, then the frame is decoded.\<close>

definition decode_at :: "'h env \<Rightarrow> string list \<Rightarrow> nat \<Rightarrow> exn + json" where
  "decode_at env msg i =
     (case getitem msg i of
        Inl e \<Rightarrow> Inl e
      | Inr frame \<Rightarrow> (case decode env frame of None \<Rightarrow> Inl ValueError | Some v \<Rightarrow> Inr v))"

text \<open>
  The dict every branch builds for its outgoing header: \<^verbatim>\<open>msg_id()\<close> is called first,
  then \<^verbatim>\<open>shell_header["username"]\<close> and \<^verbatim>\<open>shell_header["session"]\<close> are read.
\<close>

definition new_header :: "'h env \<Rightarrow> json \<Rightarrow> string \<Rightarrow> kstate \<Rightarrow> (exn + json) \<times> kstate" where
  "new_header env shell_header ty st =
     (let (i, st1) = msg_id env st in
      case subscript shell_header ''username'' of
        Inl e \<Rightarrow> (Inl e, st1)
      | Inr username \<Rightarrow>
      (case subscript shell_header ''session'' of
        Inl e \<Rightarrow> (Inl e, st1)
      | Inr session \<Rightarrow>
          (Inr (JObj [(''msg_id'', JStr i), (''username'', username),
                      (''session'', session), (''msg_type'', JStr ty)]), st1)))"

text \<open>
  The \<^verbatim>\<open>if\<close>/\<^verbatim>\<open>elif\<close> chain of \<^verbatim>\<open>shell_handler\<close>, \<open>msg_type\<close> being the value of
  \<^verbatim>\<open>shell_header["msg_type"]\<close>. The first branch evaluates \<^verbatim>\<open>content["code"]\<close> for its
  debugging line before anything else. In the last branch \<^verbatim>\<open>dprint\<close> is called with a string
  as its level, which Python 2 compares with the integer level without raising.
\<close>

definition dispatch :: "'h env \<Rightarrow> json \<Rightarrow> json \<Rightarrow> json \<Rightarrow> json \<Rightarrow> kstate \<Rightarrow> exn option \<times> kstate" where
  "dispatch env msg_type shell_header metadata content st =
     (if msg_type = JStr ''execute_request'' then
        (case subscript content ''code'' of
           Inl e \<Rightarrow> (Some e, st)
         | Inr code \<Rightarrow>
         (case new_header env shell_header ''pyout'' st of
           (Inl e, st1) \<Rightarrow> (Some e, st1)
         | (Inr pub_header, st1) \<Rightarrow>
             let pub_content = JObj [(''execution_count'', JInt (execution_count st1)),
                                     (''data'', JObj [(''text/plain'', JStr ''result!'')]),
                                     (''metadata'', JObj [])];
                 st2 = send env IOPub pub_header shell_header metadata pub_content st1
             in (case new_header env shell_header ''execute_reply'' st2 of
                   (Inl e, st3) \<Rightarrow> (Some e, st3)
                 | (Inr header, st3) \<Rightarrow>
                     let content' = JObj [(''status'', JStr ''ok''),
                                          (''execution_count'', JInt (execution_count st3)),
                                          (''playload'', JArr []),
                                          (''user_variables'', JObj []),
                                          (''user_expressions'', JObj [])]
                     in (None, send env Shell header shell_header metadata content' st3))))
      else if msg_type = JStr ''kernel_info_request'' then
        (case new_header env shell_header ''kernel_info_reply'' st of
           (Inl e, st1) \<Rightarrow> (Some e, st1)
         | (Inr header, st1) \<Rightarrow>
             let content' = JObj [(''protocol_version'', JArr [JInt 1, JInt 1]),
                                  (''ipython_version'', JArr [JInt 1, JInt 1, JInt 0, JStr '''']),
                                  (''language_version'', JArr [JInt 0, JInt 0, JInt 1]),
                                  (''language'', JStr ''simple'')]
             in (None, send env Shell header shell_header metadata content' st1))
      else if msg_type = JStr ''history_request'' then
        (case new_header env shell_header ''kernel_info_reply'' st of
           (Inl e, st1) \<Rightarrow> (Some e, st1)
         | (Inr header, st1) \<Rightarrow>
             let content' = JObj [(''output'', JBool False)]
             in (None, send env Shell header shell_header metadata content' st1))
      else
        (case new_header env shell_header ''execute_reply'' st of
           (Inl e, st1) \<Rightarrow> (Some e, st1)
         | (Inr header, st1) \<Rightarrow>
             let content' = JObj [(''status'', JStr ''error''),
                                  (''execution_count'', JInt (execution_count st1))]
             in (None, send env Shell header shell_header metadata content' st1)))"

text \<open>
  \<^verbatim>\<open>shell_handler(msg)\<close>. The result pairs the exception that left the handler, if any,
  with the state it leaves behind. The received signature is read and never used again;
  the digest of the four received frames is computed and printed.
\<close>

definition shell_handler :: "'h env \<Rightarrow> kstate \<Rightarrow> string list \<Rightarrow> exn option \<times> kstate" where
  "shell_handler env st msg =
     (case scan_delim msg 0 of
        Inl e \<Rightarrow> (Some e, st)
      | Inr position \<Rightarrow>
     (case getitem msg (position + 1) of
        Inl e \<Rightarrow> (Some e, st)
      | Inr signature \<Rightarrow>
     (case decode_at env msg (position + 2) of
        Inl e \<Rightarrow> (Some e, st)
      | Inr shell_header \<Rightarrow>
     (case decode_at env msg (position + 3) of
        Inl e \<Rightarrow> (Some e, st)
      | Inr parent_header \<Rightarrow>
     (case decode_at env msg (position + 4) of
        Inl e \<Rightarrow> (Some e, st)
      | Inr metadata \<Rightarrow>
     (case decode_at env msg (position + 5) of
        Inl e \<Rightarrow> (Some e, st)
      | Inr content \<Rightarrow>
          let check_sig = sign env (slice msg (position + 2) (position + 6));
              st0 = st\<lparr>printed := printed st @ [check_sig]\<rparr>
          in (case subscript shell_header ''msg_type'' of
                Inl e \<Rightarrow> (Some e, st0)
              | Inr msg_type \<Rightarrow>
                  (case dispatch env msg_type shell_header metadata content st0 of
                     (Some e, st') \<Rightarrow> (Some e, st')
                   | (None, st') \<Rightarrow>
                       (None, st'\<lparr>execution_count := execution_count st' + 1\<rparr>)))))))))"

section \<open>Names for what the handler sends\<close>

text \<open>
  The six frames \<^verbatim>\<open>send\<close> hands to the transport for a message, and the header dict the
  handler builds for an outgoing message whose id is the \<open>k\<close>-th uuid drawn.
\<close>

definition envelope :: "'h env \<Rightarrow> json \<Rightarrow> json \<Rightarrow> json \<Rightarrow> json \<Rightarrow> string list" where
  "envelope env header parent_header metadata content =
     [''<IDS|MSG>'',
      sign env [encode env header, encode env parent_header, encode env metadata, encode env content],
      encode env header, encode env parent_header, encode env metadata, encode env content]"

definition out_header :: "'h env \<Rightarrow> nat \<Rightarrow> json \<Rightarrow> json \<Rightarrow> string \<Rightarrow> json" where
  "out_header env k username session ty =
     JObj [(''msg_id'', JStr (uuid4 env k)), (''username'', username),
           (''session'', session), (''msg_type'', JStr ty)]"

section \<open>A concrete environment\<close>

text \<open>
  The theorems below hold for every codec, HMAC object and uuid generator. To run the
  handler on concrete messages a small instance is fixed here: an encoder that writes
  JSON text with the separators of \<^verbatim>\<open>json.JSONEncoder\<close> (dict items in list order, strings
  between double quotes and without escapes), a decoder that knows the texts of
  \<open>demo_values\<close> and raises on every other text, a stand-in keyed digest with one byte for
  the key and one for each part (its length), and a generator whose \<open>k\<close>-th uuid is a tag
  followed by \<open>k\<close> marks.
  \<open>initial_state\<close> is the state at start-up: \<^verbatim>\<open>execution_count = 1\<close>, nothing sent.
\<close>

fun digits :: "nat \<Rightarrow> string" where
  "digits n = (if n < 10 then [''0123456789'' ! n]
               else digits (n div 10) @ [''0123456789'' ! (n mod 10)])"

declare digits.simps [simp del]

definition show_int :: "int \<Rightarrow> string" where
  "show_int i = (if i < 0 then ''-'' @ digits (nat (- i)) else digits (nat i))"

definition quote :: "string \<Rightarrow> string" where
  "quote s = [CHR 0x22] @ s @ [CHR 0x22]"

fun join :: "string list \<Rightarrow> string" where
  "join [] = []"
| "join [x] = x"
| "join (x # y # ys) = x @ '', '' @ join (y # ys)"

fun demo_encode :: "json \<Rightarrow> string" where
  "demo_encode JNull = ''null''"
| "demo_encode (JBool b) = (if b then ''true'' else ''false'')"
| "demo_encode (JInt i) = show_int i"
| "demo_encode (JFloat r) = r"
| "demo_encode (JStr s) = quote s"
| "demo_encode (JArr xs) = ''['' @ join (map demo_encode xs) @ '']''"
| "demo_encode (JObj items) =
     ''{'' @ join (map (\<lambda>(k, v). quote k @ '': '' @ demo_encode v) items) @ ''}''"

declare demo_encode.simps [simp del]

definition demo_request_header :: "string \<Rightarrow> json" where
  "demo_request_header ty =
     JObj [(''msg_id'', JStr ''a''), (''username'', JStr ''u''),
           (''session'', JStr ''s''), (''msg_type'', JStr ty)]"

definition demo_values :: "json list" where
  "demo_values =
     [JObj [],
      JObj [(''code'', JStr ''1+1'')],
      demo_request_header ''execute_request'',
      demo_request_header ''kernel_info_request'',
      demo_request_header ''history_request'',
      demo_request_header ''comm_open'']"

definition demo_decode :: "string \<Rightarrow> json option" where
  "demo_decode s = map_of (map (\<lambda>v. (demo_encode v, v)) demo_values) s"

definition demo_env :: "string list env" where
  "demo_env =
     \<lparr>decode = demo_decode, encode = demo_encode, secure_key = ''key'',
      hmac_new = (\<lambda>key. [key]), hmac_update = (\<lambda>h m. h @ [m]),
      hmac_digest = map (\<lambda>part. word_of_nat (length part)),
      uuid4 = (\<lambda>k. ''uuid-'' @ replicate k (CHR ''x''))\<rparr>"

definition initial_state :: kstate where
  "initial_state = \<lparr>execution_count = 1, sent = [], uuid_drawn = 0, printed = []\<rparr>"

text \<open>
  A request as it arrives on the shell socket: one routing frame, the delimiter, a
  signature frame (not the digest of the parts), and the four parts.
\<close>

definition demo_request :: "string \<Rightarrow> string list" where
  "demo_request ty =
     [''client'', ''<IDS|MSG>'', ''00'', demo_encode (demo_request_header ty), ''{}'', ''{}'',
      demo_encode (JObj [(''code'', JStr ''1+1'')])]"

section \<open>The delimiter scan and the framing\<close>

lemma scan_delim_skip:
  "''<IDS|MSG>'' \<notin> set pre \<Longrightarrow> i \<le> length pre \<Longrightarrow>
   scan_delim (pre @ ''<IDS|MSG>'' # rest) i = Inr (length pre)"
proof (induction "length pre - i" arbitrary: i)
  case 0
  then have "i = length pre" by simp
  then show ?case by (simp add: scan_delim.simps)
next
  case (Suc d)
  then have lt: "i < length pre" by simp
  then have "pre ! i \<noteq> ''<IDS|MSG>''" using Suc.prems(1) by (metis nth_mem)
  moreover have "scan_delim (pre @ ''<IDS|MSG>'' # rest) (i + 1) = Inr (length pre)"
    using Suc lt by simp
  ultimately show ?case using lt
    by (subst scan_delim.simps) (simp add: nth_append)
qed

lemma scan_delim_none:
  "''<IDS|MSG>'' \<notin> set msg \<Longrightarrow> scan_delim msg i = Inl IndexError"
proof (induction "length msg - i" arbitrary: i)
  case 0
  then show ?case by (simp add: scan_delim.simps)
next
  case (Suc d)
  then have lt: "i < length msg" by simp
  then have "msg ! i \<noteq> ''<IDS|MSG>''" using Suc.prems(1) by (metis nth_mem)
  moreover have "scan_delim msg (i + 1) = Inl IndexError"
    using Suc lt by simp
  ultimately show ?case using lt
    by (subst scan_delim.simps) simp
qed

lemma scan_delim_Inr:
  "scan_delim msg i = Inr p \<Longrightarrow> p < length msg \<and> msg ! p = ''<IDS|MSG>''"
proof (induction msg i rule: scan_delim.induct)
  case (1 msg position)
  show ?case
  proof (cases "length msg \<le> position")
    case True
    then show ?thesis using "1.prems" by (simp add: scan_delim.simps)
  next
    case False
    show ?thesis
    proof (cases "msg ! position \<noteq> ''<IDS|MSG>''")
      case True
      then have "scan_delim msg (position + 1) = Inr p"
        using "1.prems" False by (subst (asm) scan_delim.simps) simp
      then show ?thesis using "1.IH" False True by simp
    next
      case eq: False
      then have "p = position"
        using "1.prems" False by (subst (asm) scan_delim.simps) simp
      then show ?thesis using False eq by simp
    qed
  qed
qed

lemma getitem_after:
  "n = length pre + Suc k \<Longrightarrow> getitem (pre @ d # rest) n = getitem rest k"
  by (simp add: getitem_def nth_append)

lemma decode_at_after:
  "n = length pre + Suc k \<Longrightarrow> decode_at env (pre @ d # rest) n = decode_at env rest k"
  by (simp add: decode_at_def getitem_after)

lemma decode_at_Inr: "decode_at env msg i = Inr v \<Longrightarrow> i < length msg"
  by (auto simp add: decode_at_def getitem_def split: if_splits sum.splits)

lemma slice_after:
  "a = length pre + Suc a' \<Longrightarrow> b = length pre + Suc b' \<Longrightarrow>
   slice (pre @ d # rest) a b = slice rest a' b'"
  by (simp add: slice_def)

lemma shell_handler_skip:
  assumes "''<IDS|MSG>'' \<notin> set pre"
  shows "shell_handler env st (pre @ ''<IDS|MSG>'' # rest) =
         shell_handler env st (''<IDS|MSG>'' # rest)"
proof -
  have a: "scan_delim (pre @ ''<IDS|MSG>'' # rest) 0 = Inr (length pre)"
    using assms by (simp add: scan_delim_skip)
  have b: "scan_delim (''<IDS|MSG>'' # rest) 0 = Inr 0"
    using scan_delim_skip [of "[]" 0 rest] by simp
  have g: "getitem (pre @ ''<IDS|MSG>'' # rest) (length pre + 1) = getitem rest 0"
          "getitem (''<IDS|MSG>'' # rest) (0 + 1) = getitem rest 0"
    by (simp_all add: getitem_after) (simp add: getitem_def)
  have d: "decode_at env (pre @ ''<IDS|MSG>'' # rest) (length pre + 2) = decode_at env rest 1"
          "decode_at env (pre @ ''<IDS|MSG>'' # rest) (length pre + 3) = decode_at env rest 2"
          "decode_at env (pre @ ''<IDS|MSG>'' # rest) (length pre + 4) = decode_at env rest 3"
          "decode_at env (pre @ ''<IDS|MSG>'' # rest) (length pre + 5) = decode_at env rest 4"
    by (simp_all add: decode_at_after)
  have d0: "decode_at env (''<IDS|MSG>'' # rest) (0 + 2) = decode_at env rest 1"
          "decode_at env (''<IDS|MSG>'' # rest) (0 + 3) = decode_at env rest 2"
          "decode_at env (''<IDS|MSG>'' # rest) (0 + 4) = decode_at env rest 3"
          "decode_at env (''<IDS|MSG>'' # rest) (0 + 5) = decode_at env rest 4"
    by (simp_all add: decode_at_def getitem_def)
  have s: "slice (pre @ ''<IDS|MSG>'' # rest) (length pre + 2) (length pre + 6) = slice rest 1 5"
          "slice (''<IDS|MSG>'' # rest) (0 + 2) (0 + 6) = slice rest 1 5"
    by (simp_all add: slice_after) (simp add: slice_def)
  show ?thesis
    unfolding shell_handler_def a b sum.case g d d0 s by (rule refl)
qed

lemma shell_handler_sig:
  "shell_handler env st (''<IDS|MSG>'' # s1 # rest) =
   shell_handler env st (''<IDS|MSG>'' # s2 # rest)"
proof -
  have b: "\<And>s. scan_delim (''<IDS|MSG>'' # s # rest) 0 = Inr 0"
    by (simp add: scan_delim.simps)
  have g: "\<And>s. getitem (''<IDS|MSG>'' # s # rest) (0 + 1) = Inr s"
    by (simp add: getitem_def)
  have d: "\<And>s. decode_at env (''<IDS|MSG>'' # s # rest) (0 + 2) = decode_at env rest 0"
          "\<And>s. decode_at env (''<IDS|MSG>'' # s # rest) (0 + 3) = decode_at env rest 1"
          "\<And>s. decode_at env (''<IDS|MSG>'' # s # rest) (0 + 4) = decode_at env rest 2"
          "\<And>s. decode_at env (''<IDS|MSG>'' # s # rest) (0 + 5) = decode_at env rest 3"
    by (simp_all add: decode_at_def getitem_def)
  have s: "\<And>s. slice (''<IDS|MSG>'' # s # rest) (0 + 2) (0 + 6) = slice rest 0 4"
    by (simp add: slice_def)
  show ?thesis
    unfolding shell_handler_def b sum.case g d s by (rule refl)
qed

lemma shell_handler_parts:
  "shell_handler env st (''<IDS|MSG>'' # sg # fh # fp # fm # fc # rest) =
   (case decode env fh of None \<Rightarrow> (Some ValueError, st) | Some shell_header \<Rightarrow>
   (case decode env fp of None \<Rightarrow> (Some ValueError, st) | Some parent_header \<Rightarrow>
   (case decode env fm of None \<Rightarrow> (Some ValueError, st) | Some metadata \<Rightarrow>
   (case decode env fc of None \<Rightarrow> (Some ValueError, st) | Some content \<Rightarrow>
   (case subscript shell_header ''msg_type'' of
      Inl e \<Rightarrow> (Some e, st\<lparr>printed := printed st @ [sign env [fh, fp, fm, fc]]\<rparr>)
    | Inr msg_type \<Rightarrow>
       (case dispatch env msg_type shell_header metadata content
               (st\<lparr>printed := printed st @ [sign env [fh, fp, fm, fc]]\<rparr>) of
          (Some e, st') \<Rightarrow> (Some e, st')
        | (None, st') \<Rightarrow> (None, st'\<lparr>execution_count := execution_count st' + 1\<rparr>)))))))"
proof -
  have b: "scan_delim (''<IDS|MSG>'' # sg # fh # fp # fm # fc # rest) 0 = Inr 0"
    by (simp add: scan_delim.simps)
  show ?thesis
    unfolding shell_handler_def b
    by (simp add: getitem_def decode_at_def slice_def Let_def split: option.splits)
qed

lemma shell_handler_framed:
  assumes "''<IDS|MSG>'' \<notin> set pre"
  shows "shell_handler env st (pre @ ''<IDS|MSG>'' # sg # fh # fp # fm # fc # rest) =
   (case decode env fh of None \<Rightarrow> (Some ValueError, st) | Some shell_header \<Rightarrow>
   (case decode env fp of None \<Rightarrow> (Some ValueError, st) | Some parent_header \<Rightarrow>
   (case decode env fm of None \<Rightarrow> (Some ValueError, st) | Some metadata \<Rightarrow>
   (case decode env fc of None \<Rightarrow> (Some ValueError, st) | Some content \<Rightarrow>
   (case subscript shell_header ''msg_type'' of
      Inl e \<Rightarrow> (Some e, st\<lparr>printed := printed st @ [sign env [fh, fp, fm, fc]]\<rparr>)
    | Inr msg_type \<Rightarrow>
       (case dispatch env msg_type shell_header metadata content
               (st\<lparr>printed := printed st @ [sign env [fh, fp, fm, fc]]\<rparr>) of
          (Some e, st') \<Rightarrow> (Some e, st')
        | (None, st') \<Rightarrow> (None, st'\<lparr>execution_count := execution_count st' + 1\<rparr>)))))))"
  by (subst shell_handler_skip [OF assms]) (rule shell_handler_parts)

section \<open>Sending and the outgoing header\<close>

lemma send_envelope:
  "send env stream header parent_header metadata content st =
   st\<lparr>sent := sent st @ [(stream, envelope env header parent_header metadata content)]\<rparr>"
  by (simp add: send_def send_multipart_def envelope_def Let_def)

lemma new_header_eq:
  "new_header env shell_header ty st =
   (case subscript shell_header ''username'' of
      Inl e \<Rightarrow> (Inl e, st\<lparr>uuid_drawn := uuid_drawn st + 1\<rparr>)
    | Inr username \<Rightarrow>
    (case subscript shell_header ''session'' of
      Inl e \<Rightarrow> (Inl e, st\<lparr>uuid_drawn := uuid_drawn st + 1\<rparr>)
    | Inr session \<Rightarrow>
        (Inr (JObj [(''msg_id'', JStr (uuid4 env (uuid_drawn st))), (''username'', username),
                    (''session'', session), (''msg_type'', JStr ty)]),
         st\<lparr>uuid_drawn := uuid_drawn st + 1\<rparr>)))"
  by (simp add: new_header_def msg_id_def split: sum.splits)

lemma subscript_not_IndexError: "subscript v k \<noteq> Inl IndexError"
  by (cases v) (simp_all split: option.splits)

lemma new_header_ok:
  "subscript shell_header ''username'' = Inr u \<Longrightarrow> subscript shell_header ''session'' = Inr s \<Longrightarrow>
   new_header env shell_header ty st =
     (Inr (out_header env (uuid_drawn st) u s ty), st\<lparr>uuid_drawn := uuid_drawn st + 1\<rparr>)"
  by (simp add: new_header_eq out_header_def)

lemma new_header_cases:
  obtains (fail) e where "e \<noteq> IndexError"
      "\<And>ty st. new_header env shell_header ty st = (Inl e, st\<lparr>uuid_drawn := uuid_drawn st + 1\<rparr>)"
  | (ok) u s where "subscript shell_header ''username'' = Inr u"
      "subscript shell_header ''session'' = Inr s"
proof (cases "subscript shell_header ''username''")
  case (Inl e)
  then have "e \<noteq> IndexError" using subscript_not_IndexError by metis
  then show ?thesis using Inl fail by (simp add: new_header_eq)
next
  case u: (Inr u)
  show ?thesis
  proof (cases "subscript shell_header ''session''")
    case (Inl e)
    then have "e \<noteq> IndexError" using subscript_not_IndexError by metis
    then show ?thesis using Inl u fail by (simp add: new_header_eq)
  next
    case (Inr s)
    then show ?thesis using u ok by simp
  qed
qed

lemma hexchar_lower: "n < 16 \<Longrightarrow> hexchar n \<in> set ''0123456789abcdef''"
  unfolding hexchar_def by (rule nth_mem) simp

lemma hex_of_byte_lower: "set (hex_of_byte b) \<subseteq> set ''0123456789abcdef''"
proof -
  have "unat b < 256" using unsigned_less [of b, where ?'a = nat] by simp
  then have "unat b div 16 < 16" by simp
  moreover have "unat b mod 16 < 16" by simp
  ultimately show ?thesis
    unfolding hex_of_byte_def using hexchar_lower by (metis empty_set insert_subset list.simps(15) subset_refl empty_subsetI)
qed

lemma hexdigest_lower: "set (hexdigest env h) \<subseteq> set ''0123456789abcdef''"
  unfolding hexdigest_def using hex_of_byte_lower by (auto simp del: set_simps)

section \<open>The branches of the dispatch\<close>

lemma dispatch_execute_fail:
  "subscript content ''code'' = Inl e \<Longrightarrow>
   dispatch env (JStr ''execute_request'') shell_header metadata content st = (Some e, st)"
  by (simp add: dispatch_def)

lemma dispatch_execute_ok:
  assumes "subscript content ''code'' = Inr code"
    and "subscript shell_header ''username'' = Inr u"
    and "subscript shell_header ''session'' = Inr s"
  shows "dispatch env (JStr ''execute_request'') shell_header metadata content st =
    (None, st\<lparr>uuid_drawn := uuid_drawn st + 2,
       sent := sent st @
         [(IOPub, envelope env (out_header env (uuid_drawn st) u s ''pyout'') shell_header metadata
             (JObj [(''execution_count'', JInt (execution_count st)),
                    (''data'', JObj [(''text/plain'', JStr ''result!'')]),
                    (''metadata'', JObj [])])),
          (Shell, envelope env (out_header env (uuid_drawn st + 1) u s ''execute_reply'')
             shell_header metadata
             (JObj [(''status'', JStr ''ok''),
                    (''execution_count'', JInt (execution_count st)),
                    (''playload'', JArr []),
                    (''user_variables'', JObj []),
                    (''user_expressions'', JObj [])]))]\<rparr>)"
  using assms by (simp add: dispatch_def new_header_ok send_envelope Let_def)

lemma dispatch_kernel_info_ok:
  assumes "subscript shell_header ''username'' = Inr u"
    and "subscript shell_header ''session'' = Inr s"
  shows "dispatch env (JStr ''kernel_info_request'') shell_header metadata content st =
    (None, st\<lparr>uuid_drawn := uuid_drawn st + 1,
       sent := sent st @
         [(Shell, envelope env (out_header env (uuid_drawn st) u s ''kernel_info_reply'')
             shell_header metadata
             (JObj [(''protocol_version'', JArr [JInt 1, JInt 1]),
                    (''ipython_version'', JArr [JInt 1, JInt 1, JInt 0, JStr '''']),
                    (''language_version'', JArr [JInt 0, JInt 0, JInt 1]),
                    (''language'', JStr ''simple'')]))]\<rparr>)"
  using assms by (simp add: dispatch_def new_header_ok send_envelope Let_def)

lemma dispatch_history_ok:
  assumes "subscript shell_header ''username'' = Inr u"
    and "subscript shell_header ''session'' = Inr s"
  shows "dispatch env (JStr ''history_request'') shell_header metadata content st =
    (None, st\<lparr>uuid_drawn := uuid_drawn st + 1,
       sent := sent st @
         [(Shell, envelope env (out_header env (uuid_drawn st) u s ''kernel_info_reply'')
             shell_header metadata (JObj [(''output'', JBool False)]))]\<rparr>)"
  using assms by (simp add: dispatch_def new_header_ok send_envelope Let_def)

lemma dispatch_unknown_ok:
  assumes "t \<noteq> JStr ''execute_request''" "t \<noteq> JStr ''kernel_info_request''"
    and "t \<noteq> JStr ''history_request''"
    and "subscript shell_header ''username'' = Inr u"
    and "subscript shell_header ''session'' = Inr s"
  shows "dispatch env t shell_header metadata content st =
    (None, st\<lparr>uuid_drawn := uuid_drawn st + 1,
       sent := sent st @
         [(Shell, envelope env (out_header env (uuid_drawn st) u s ''execute_reply'')
             shell_header metadata
             (JObj [(''status'', JStr ''error''),
                    (''execution_count'', JInt (execution_count st))]))]\<rparr>)"
  using assms by (simp add: dispatch_def new_header_ok send_envelope Let_def)

lemma dispatch_header_fail:
  assumes "\<And>ty st. new_header env shell_header ty st = (Inl e, st\<lparr>uuid_drawn := uuid_drawn st + 1\<rparr>)"
  shows "dispatch env t shell_header metadata content st = (Some e, st\<lparr>uuid_drawn := uuid_drawn st + 1\<rparr>)
       \<or> (\<exists>e'. t = JStr ''execute_request'' \<and> subscript content ''code'' = Inl e'
            \<and> dispatch env t shell_header metadata content st = (Some e', st))"
  by (cases "subscript content ''code''") (simp_all add: dispatch_def assms)

lemma dispatch_count:
  "dispatch env t shell_header metadata content st = (r, st') \<Longrightarrow>
   execution_count st' = execution_count st"
proof (cases rule: new_header_cases [of env shell_header])
  case (fail e)
  assume "dispatch env t shell_header metadata content st = (r, st')"
  then show ?thesis
    using dispatch_header_fail [OF fail(2), of t metadata content st] by auto
next
  case (ok u s)
  assume d: "dispatch env t shell_header metadata content st = (r, st')"
  consider (ex) "t = JStr ''execute_request''" | (ki) "t = JStr ''kernel_info_request''"
    | (hi) "t = JStr ''history_request''"
    | (un) "t \<noteq> JStr ''execute_request''" "t \<noteq> JStr ''kernel_info_request''"
           "t \<noteq> JStr ''history_request''"
    by blast
  then show ?thesis
  proof cases
    case ex
    show ?thesis
    proof (cases "subscript content ''code''")
      case (Inl e)
      then show ?thesis using d ex dispatch_execute_fail [of content e env] by auto
    next
      case (Inr code)
      then show ?thesis using d ex dispatch_execute_ok [OF Inr ok, of env metadata st] by auto
    qed
  next
    case ki
    then show ?thesis using d dispatch_kernel_info_ok [OF ok, of env metadata content st] by auto
  next
    case hi
    then show ?thesis using d dispatch_history_ok [OF ok, of env metadata content st] by auto
  next
    case un
    then show ?thesis using d dispatch_unknown_ok [OF un ok, of env metadata content st] by auto
  qed
qed

lemma dispatch_printed:
  "dispatch env t shell_header metadata content st = (r, st') \<Longrightarrow> printed st' = printed st"
proof (cases rule: new_header_cases [of env shell_header])
  case (fail e)
  assume "dispatch env t shell_header metadata content st = (r, st')"
  then show ?thesis
    using dispatch_header_fail [OF fail(2), of t metadata content st] by auto
next
  case (ok u s)
  assume d: "dispatch env t shell_header metadata content st = (r, st')"
  consider (ex) "t = JStr ''execute_request''" | (ki) "t = JStr ''kernel_info_request''"
    | (hi) "t = JStr ''history_request''"
    | (un) "t \<noteq> JStr ''execute_request''" "t \<noteq> JStr ''kernel_info_request''"
           "t \<noteq> JStr ''history_request''"
    by blast
  then show ?thesis
  proof cases
    case ex
    show ?thesis
    proof (cases "subscript content ''code''")
      case (Inl e)
      then show ?thesis using d ex dispatch_execute_fail [of content e env] by auto
    next
      case (Inr code)
      then show ?thesis using d ex dispatch_execute_ok [OF Inr ok, of env metadata st] by auto
    qed
  next
    case ki
    then show ?thesis using d dispatch_kernel_info_ok [OF ok, of env metadata content st] by auto
  next
    case hi
    then show ?thesis using d dispatch_history_ok [OF ok, of env metadata content st] by auto
  next
    case un
    then show ?thesis using d dispatch_unknown_ok [OF un ok, of env metadata content st] by auto
  qed
qed

lemma dispatch_not_IndexError:
  "fst (dispatch env t shell_header metadata content st) \<noteq> Some IndexError"
proof (cases rule: new_header_cases [of env shell_header])
  case (fail e)
  then show ?thesis
    using dispatch_header_fail [OF fail(2), of t metadata content st] subscript_not_IndexError
    by auto
next
  case (ok u s)
  consider (ex) "t = JStr ''execute_request''" | (ki) "t = JStr ''kernel_info_request''"
    | (hi) "t = JStr ''history_request''"
    | (un) "t \<noteq> JStr ''execute_request''" "t \<noteq> JStr ''kernel_info_request''"
           "t \<noteq> JStr ''history_request''"
    by blast
  then show ?thesis
  proof cases
    case ex
    show ?thesis
    proof (cases "subscript content ''code''")
      case (Inl e)
      then show ?thesis using ex dispatch_execute_fail [of content e env] subscript_not_IndexError
        by auto
    next
      case (Inr code)
      then show ?thesis using ex dispatch_execute_ok [OF Inr ok, of env metadata st] by auto
    qed
  next
    case ki
    then show ?thesis using dispatch_kernel_info_ok [OF ok, of env metadata content st] by auto
  next
    case hi
    then show ?thesis using dispatch_history_ok [OF ok, of env metadata content st] by auto
  next
    case un
    then show ?thesis using dispatch_unknown_ok [OF un ok, of env metadata content st] by auto
  qed
qed

lemma dispatch_accepted:
  assumes "dispatch env t shell_header metadata content st = (None, st')"
  obtains u s where "subscript shell_header ''username'' = Inr u"
    "subscript shell_header ''session'' = Inr s"
proof (cases rule: new_header_cases [of env shell_header])
  case (fail e)
  then show ?thesis
    using dispatch_header_fail [OF fail(2), of t metadata content st] assms by auto
next
  case (ok u s)
  then show ?thesis using that by blast
qed

section \<open>Accepted messages\<close>

lemma shell_handler_count:
  assumes "shell_handler env st msg = (r, st')"
  shows "execution_count st' = (if r = None then execution_count st + 1 else execution_count st)"
  using assms dispatch_count [of env _ _ _ _ "st\<lparr>printed := printed st @ [_]\<rparr>"]
  unfolding shell_handler_def Let_def
  by (auto split: sum.splits option.splits prod.splits)

lemma shell_handler_accepted:
  assumes pre: "''<IDS|MSG>'' \<notin> set pre"
    and fh: "decode env fh = Some shell_header"
    and fm: "decode env fm = Some metadata"
    and run: "shell_handler env st (pre @ ''<IDS|MSG>'' # sg # fh # fp # fm # fc # rest) = (None, st')"
  obtains t u s content st'' where
    "subscript shell_header ''msg_type'' = Inr t"
    "subscript shell_header ''username'' = Inr u"
    "subscript shell_header ''session'' = Inr s"
    "decode env fc = Some content"
    "dispatch env t shell_header metadata content
       (st\<lparr>printed := printed st @ [sign env [fh, fp, fm, fc]]\<rparr>) = (None, st'')"
    "st' = st''\<lparr>execution_count := execution_count st'' + 1\<rparr>"
proof -
  note fr = shell_handler_framed [OF pre, of env st sg fh fp fm fc rest]
  from run obtain parent_header where fp: "decode env fp = Some parent_header"
    by (auto simp add: fr fh split: option.splits)
  from run obtain content where fc: "decode env fc = Some content"
    by (auto simp add: fr fh fp fm split: option.splits)
  from run obtain t where t: "subscript shell_header ''msg_type'' = Inr t"
    by (auto simp add: fr fh fp fm fc split: sum.splits)
  from run obtain st'' where
    d: "dispatch env t shell_header metadata content
         (st\<lparr>printed := printed st @ [sign env [fh, fp, fm, fc]]\<rparr>) = (None, st'')"
    and st': "st' = st''\<lparr>execution_count := execution_count st'' + 1\<rparr>"
    by (auto simp add: fr fh fp fm fc t split: prod.splits option.splits)
  from d obtain u s where "subscript shell_header ''username'' = Inr u"
    "subscript shell_header ''session'' = Inr s"
    by (rule dispatch_accepted)
  then show ?thesis using that t fc d st' by blast
qed

lemma accepted_has_envelope:
  assumes "fst (shell_handler env st msg) = None"
  shows "\<exists>pre rest. msg = pre @ ''<IDS|MSG>'' # rest \<and> 5 \<le> length rest"
proof -
  from assms obtain p v where p: "scan_delim msg 0 = Inr p"
    and v: "decode_at env msg (p + 5) = Inr v"
    unfolding shell_handler_def by (auto split: sum.splits)
  from p have lt: "p < length msg" and d: "msg ! p = ''<IDS|MSG>''"
    using scan_delim_Inr by blast+
  from v have "p + 5 < length msg" by (rule decode_at_Inr)
  then have "5 \<le> length (drop (Suc p) msg)" by simp
  moreover have "msg = take p msg @ ''<IDS|MSG>'' # drop (Suc p) msg"
    using id_take_nth_drop [OF lt] d by simp
  ultimately show ?thesis by blast
qed

lemma first_delim_split:
  assumes "msg = pre @ ''<IDS|MSG>'' # rest"
  obtains pre' rest' where "msg = pre' @ ''<IDS|MSG>'' # rest'" "''<IDS|MSG>'' \<notin> set pre'"
    "length rest \<le> length rest'"
proof -
  have "''<IDS|MSG>'' \<in> set msg" using assms by simp
  then obtain pre' rest' where m: "msg = pre' @ ''<IDS|MSG>'' # rest'"
    and n: "''<IDS|MSG>'' \<notin> set pre'"
    by (meson split_list_first)
  have "length pre' \<le> length pre"
  proof (rule ccontr)
    assume "\<not> length pre' \<le> length pre"
    then have lt: "length pre < length pre'" by simp
    then have "pre' ! length pre = msg ! length pre" using m by (simp add: nth_append)
    also have "\<dots> = ''<IDS|MSG>''" using assms by simp
    finally show False using n lt by (metis nth_mem)
  qed
  moreover have "length msg = length pre + Suc (length rest)" using assms by simp
  moreover have "length msg = length pre' + Suc (length rest')" using m by simp
  ultimately have "length rest \<le> length rest'" by linarith
  then show ?thesis using that m n by blast
qed

lemma framed_not_IndexError:
  assumes "''<IDS|MSG>'' \<notin> set pre"
  shows "fst (shell_handler env st (pre @ ''<IDS|MSG>'' # sg # fh # fp # fm # fc # rest))
         \<noteq> Some IndexError"
proof -
  have d: "e \<noteq> IndexError" if "dispatch env t h m c s = (Some e, s')" for t h m c s e s'
    using dispatch_not_IndexError [of env t h m c s] that by auto
  show ?thesis
    unfolding shell_handler_framed [OF assms]
    using subscript_not_IndexError
    by (auto split: option.splits sum.splits prod.splits dest: d)
qed

lemma envelope_not_IndexError:
  assumes "msg = pre @ ''<IDS|MSG>'' # rest" and "5 \<le> length rest"
  shows "fst (shell_handler env st msg) \<noteq> Some IndexError"
proof -
  obtain pre' rest' where m: "msg = pre' @ ''<IDS|MSG>'' # rest'"
    and n: "''<IDS|MSG>'' \<notin> set pre'" and l: "length rest \<le> length rest'"
    using first_delim_split [OF assms(1)] by blast
  from l assms(2) have "5 \<le> length rest'" by simp
  then obtain sg fh fp fm fc rest'' where "rest' = sg # fh # fp # fm # fc # rest''"
    by (auto simp add: numeral_eq_Suc Suc_le_length_iff)
  then show ?thesis using framed_not_IndexError [OF n] m by simp
qed

lemma short_envelope:
  assumes "''<IDS|MSG>'' \<notin> set pre" and "length rest < 5"
    and "\<forall>f \<in> set (tl rest). decode env f \<noteq> None"
  shows "shell_handler env st (pre @ ''<IDS|MSG>'' # rest) = (Some IndexError, st)"
proof -
  have b: "scan_delim (''<IDS|MSG>'' # rest) 0 = Inr 0"
    by (simp add: scan_delim.simps)
  consider "rest = []" | sg where "rest = [sg]" | sg fh where "rest = [sg, fh]"
    | sg fh fp where "rest = [sg, fh, fp]" | sg fh fp fm where "rest = [sg, fh, fp, fm]"
    using assms(2)
    by (cases rest; cases "tl rest"; cases "tl (tl rest)"; cases "tl (tl (tl rest))";
        cases "tl (tl (tl (tl rest)))") auto
  then have "shell_handler env st (''<IDS|MSG>'' # rest) = (Some IndexError, st)"
    using assms(3) unfolding shell_handler_def b
    by cases (auto simp add: getitem_def decode_at_def split: option.splits)
  then show ?thesis by (subst shell_handler_skip [OF assms(1)])
qed

lemma dispatch_raise_sent:
  "dispatch env t shell_header metadata content st = (Some e, st') \<Longrightarrow> sent st' = sent st"
proof (cases rule: new_header_cases [of env shell_header])
  case (fail e')
  assume "dispatch env t shell_header metadata content st = (Some e, st')"
  then show ?thesis
    using dispatch_header_fail [OF fail(2), of t metadata content st] by auto
next
  case (ok u s)
  assume d: "dispatch env t shell_header metadata content st = (Some e, st')"
  consider (ex) "t = JStr ''execute_request''" | (ki) "t = JStr ''kernel_info_request''"
    | (hi) "t = JStr ''history_request''"
    | (un) "t \<noteq> JStr ''execute_request''" "t \<noteq> JStr ''kernel_info_request''"
           "t \<noteq> JStr ''history_request''"
    by blast
  then show ?thesis
  proof cases
    case ex
    show ?thesis
    proof (cases "subscript content ''code''")
      case (Inl e')
      then show ?thesis using d ex dispatch_execute_fail [of content e' env] by auto
    next
      case (Inr code)
      then show ?thesis using d ex dispatch_execute_ok [OF Inr ok, of env metadata st] by auto
    qed
  next
    case ki
    then show ?thesis using d dispatch_kernel_info_ok [OF ok, of env metadata content st] by auto
  next
    case hi
    then show ?thesis using d dispatch_history_ok [OF ok, of env metadata content st] by auto
  next
    case un
    then show ?thesis using d dispatch_unknown_ok [OF un ok, of env metadata content st] by auto
  qed
qed

lemma shell_handler_raise_sent:
  assumes "shell_handler env st msg = (Some e, st')"
  shows "sent st' = sent st"
  using assms dispatch_raise_sent [of env _ _ _ _ "st\<lparr>printed := printed st @ [_]\<rparr>"]
  unfolding shell_handler_def Let_def
  by (auto split: sum.splits option.splits prod.splits)

lemma reply_headers_accepted:
  assumes "''<IDS|MSG>'' \<notin> set pre"
    and "decode env fh = Some shell_header"
    and "decode env fm = Some metadata"
    and "shell_handler env st (pre @ ''<IDS|MSG>'' # sg # fh # fp # fm # fc # rest) = (None, st')"
  shows "\<exists>u s outs.
           subscript shell_header ''username'' = Inr u
         \<and> subscript shell_header ''session'' = Inr s
         \<and> outs \<noteq> []
         \<and> sent st' = sent st @
             map (\<lambda>(k, stream, ty, c).
                    (stream, envelope env (out_header env k u s ty) shell_header metadata c)) outs
         \<and> map fst outs = [uuid_drawn st ..< uuid_drawn st']
         \<and> (inj (uuid4 env) \<longrightarrow> distinct (map (\<lambda>(k, stream, ty, c). uuid4 env k) outs))"
proof -
  obtain t u s content st'' where
    t: "subscript shell_header ''msg_type'' = Inr t"
    and u: "subscript shell_header ''username'' = Inr u"
    and s: "subscript shell_header ''session'' = Inr s"
    and d: "dispatch env t shell_header metadata content
       (st\<lparr>printed := printed st @ [sign env [fh, fp, fm, fc]]\<rparr>) = (None, st'')"
    and st': "st' = st''\<lparr>execution_count := execution_count st'' + 1\<rparr>"
    using shell_handler_accepted [OF assms] by metis
  let ?P = "\<lambda>outs. outs \<noteq> []
         \<and> sent st' = sent st @
             map (\<lambda>(k, stream, ty, c).
                    (stream, envelope env (out_header env k u s ty) shell_header metadata c)) outs
         \<and> map fst outs = [uuid_drawn st ..< uuid_drawn st']
         \<and> (inj (uuid4 env) \<longrightarrow> distinct (map (\<lambda>(k, stream, ty, c). uuid4 env k) outs))"
  have up1: "\<And>n. [n ..< Suc n] = [n]" by simp
  have up2: "\<And>n. [n ..< Suc (Suc n)] = [n, Suc n]" by (simp add: upt_rec)
  consider (ex) "t = JStr ''execute_request''" | (ki) "t = JStr ''kernel_info_request''"
    | (hi) "t = JStr ''history_request''"
    | (un) "t \<noteq> JStr ''execute_request''" "t \<noteq> JStr ''kernel_info_request''"
           "t \<noteq> JStr ''history_request''"
    by blast
  then have "\<exists>outs. ?P outs"
  proof cases
    case ex
    obtain code where code: "subscript content ''code'' = Inr code"
      using d ex dispatch_execute_fail [of content _ env shell_header metadata]
      by (cases "subscript content ''code''") auto
    have "?P [(uuid_drawn st, IOPub, ''pyout'',
                JObj [(''execution_count'', JInt (execution_count st)),
                      (''data'', JObj [(''text/plain'', JStr ''result!'')]),
                      (''metadata'', JObj [])]),
              (uuid_drawn st + 1, Shell, ''execute_reply'',
                JObj [(''status'', JStr ''ok''),
                      (''execution_count'', JInt (execution_count st)),
                      (''playload'', JArr []),
                      (''user_variables'', JObj []),
                      (''user_expressions'', JObj [])])]"
      using d st' unfolding ex dispatch_execute_ok [OF code u s]
      by (auto simp add: up2 inj_eq)
    then show ?thesis by blast
  next
    case ki
    have "?P [(uuid_drawn st, Shell, ''kernel_info_reply'',
                JObj [(''protocol_version'', JArr [JInt 1, JInt 1]),
                      (''ipython_version'', JArr [JInt 1, JInt 1, JInt 0, JStr '''']),
                      (''language_version'', JArr [JInt 0, JInt 0, JInt 1]),
                      (''language'', JStr ''simple'')])]"
      using d st' unfolding ki dispatch_kernel_info_ok [OF u s]
      by (auto simp add: up1)
    then show ?thesis by blast
  next
    case hi
    have "?P [(uuid_drawn st, Shell, ''kernel_info_reply'', JObj [(''output'', JBool False)])]"
      using d st' unfolding hi dispatch_history_ok [OF u s]
      by (auto simp add: up1)
    then show ?thesis by blast
  next
    case un
    have "?P [(uuid_drawn st, Shell, ''execute_reply'',
                JObj [(''status'', JStr ''error''),
                      (''execution_count'', JInt (execution_count st))])]"
      using d st' unfolding dispatch_unknown_ok [OF un u s]
      by (auto simp add: up1)
    then show ?thesis by blast
  qed
  then show ?thesis using u s by blast
qed

section \<open>The handler on the concrete requests\<close>

lemmas demo_defs = demo_env_def demo_decode_def demo_values_def demo_request_header_def quote_def
  demo_encode.simps

lemma demo_decode_header:
  "ty \<in> {''execute_request'', ''kernel_info_request'', ''history_request'', ''comm_open''} \<Longrightarrow>
   decode demo_env (demo_encode (demo_request_header ty)) = Some (demo_request_header ty)"
  by (auto simp add: demo_defs)

lemma demo_decode_empty: "decode demo_env ''{}'' = Some (JObj [])"
  by (simp add: demo_defs)

lemma demo_decode_code:
  "decode demo_env (demo_encode (JObj [(''code'', JStr ''1+1'')])) = Some (JObj [(''code'', JStr ''1+1'')])"
  by (simp add: demo_defs)

lemma demo_decode_bad: "decode demo_env ''{nope'' = None"
  by (simp add: demo_defs)

lemma demo_subscript:
  "subscript (demo_request_header ty) ''msg_type'' = Inr (JStr ty)"
  "subscript (demo_request_header ty) ''username'' = Inr (JStr ''u'')"
  "subscript (demo_request_header ty) ''session'' = Inr (JStr ''s'')"
  by (simp_all add: demo_request_header_def)

lemma demo_request_framed:
  "demo_request ty = [''client''] @ ''<IDS|MSG>'' # ''00'' # demo_encode (demo_request_header ty)
     # ''{}'' # ''{}'' # demo_encode (JObj [(''code'', JStr ''1+1'')]) # []"
  by (simp add: demo_request_def)

lemma demo_pre: "''<IDS|MSG>'' \<notin> set [''client'']"
  by simp

lemma demo_members:
  "''execute_request'' \<in> {''execute_request'', ''kernel_info_request'', ''history_request'', ''comm_open''}"
  "''kernel_info_request'' \<in> {''execute_request'', ''kernel_info_request'', ''history_request'', ''comm_open''}"
  "''history_request'' \<in> {''execute_request'', ''kernel_info_request'', ''history_request'', ''comm_open''}"
  "''comm_open'' \<in> {''execute_request'', ''kernel_info_request'', ''history_request'', ''comm_open''}"
  by simp_all

lemma demo_accepted:
  assumes "ty \<in> {''execute_request'', ''kernel_info_request'', ''history_request'', ''comm_open''}"
  shows "fst (shell_handler demo_env initial_state (demo_request ty)) = None"
proof -
  note u = demo_subscript(2) [of ty] and s = demo_subscript(3) [of ty]
  have c: "subscript (JObj [(''code'', JStr ''1+1'')]) ''code'' = Inr (JStr ''1+1'')" by simp
  note fr = shell_handler_framed [OF demo_pre, of demo_env initial_state]
  consider "ty = ''execute_request''" | "ty = ''kernel_info_request''"
    | "ty = ''history_request''" | "ty = ''comm_open''"
    using assms by auto
  then show ?thesis
  proof cases
    case 1
    then show ?thesis
      unfolding demo_request_framed fr
      using dispatch_execute_ok [OF c u s, of demo_env "JObj []"]
      by (simp add: demo_decode_header demo_decode_empty demo_decode_code demo_subscript)
  next
    case 2
    then show ?thesis
      unfolding demo_request_framed fr
      using dispatch_kernel_info_ok [OF u s, of demo_env "JObj []"]
      by (simp add: demo_decode_header demo_decode_empty demo_decode_code demo_subscript)
  next
    case 3
    then show ?thesis
      unfolding demo_request_framed fr
      using dispatch_history_ok [OF u s, of demo_env "JObj []"]
      by (simp add: demo_decode_header demo_decode_empty demo_decode_code demo_subscript)
  next
    case 4
    then show ?thesis
      unfolding demo_request_framed fr
      using dispatch_unknown_ok [OF _ _ _ u s, of "JStr ty" demo_env "JObj []"]
      by (simp add: demo_decode_header demo_decode_empty demo_decode_code demo_subscript)
  qed
qed

lemma demo_run:
  assumes "ty \<in> {''execute_request'', ''kernel_info_request'', ''history_request'', ''comm_open''}"
  shows "shell_handler demo_env initial_state
           ([''client''] @ ''<IDS|MSG>'' # ''00'' # demo_encode (demo_request_header ty)
              # ''{}'' # ''{}'' # demo_encode (JObj [(''code'', JStr ''1+1'')]) # []) =
         (None, snd (shell_handler demo_env initial_state (demo_request ty)))"
  using demo_accepted [OF assms] unfolding demo_request_framed by (metis prod.collapse)

lemma demo_execute_result:
  "shell_handler demo_env initial_state (demo_request ''execute_request'') =
   (None,
    \<lparr>execution_count = 2,
     sent =
       [(IOPub, envelope demo_env (out_header demo_env 0 (JStr ''u'') (JStr ''s'') ''pyout'')
           (demo_request_header ''execute_request'') (JObj [])
           (JObj [(''execution_count'', JInt 1),
                  (''data'', JObj [(''text/plain'', JStr ''result!'')]),
                  (''metadata'', JObj [])])),
        (Shell, envelope demo_env (out_header demo_env 1 (JStr ''u'') (JStr ''s'') ''execute_reply'')
           (demo_request_header ''execute_request'') (JObj [])
           (JObj [(''status'', JStr ''ok''),
                  (''execution_count'', JInt 1),
                  (''playload'', JArr []),
                  (''user_variables'', JObj []),
                  (''user_expressions'', JObj [])]))],
     uuid_drawn = 2,
     printed = [sign demo_env [demo_encode (demo_request_header ''execute_request''), ''{}'', ''{}'',
                               demo_encode (JObj [(''code'', JStr ''1+1'')])]]\<rparr>)"
proof -
  have c: "subscript (JObj [(''code'', JStr ''1+1'')]) ''code'' = Inr (JStr ''1+1'')" by simp
  show ?thesis
    unfolding demo_request_framed shell_handler_framed [OF demo_pre]
    using dispatch_execute_ok [OF c demo_subscript(2,3), of demo_env "''execute_request''" "JObj []"]
    by (simp add: demo_decode_header demo_decode_empty demo_decode_code demo_subscript
        initial_state_def)
qed

lemma demo_junk: "shell_handler demo_env initial_state [''junk''] = (Some IndexError, initial_state)"
  by (simp add: shell_handler_def scan_delim_none)

lemma demo_uuid_inj: "inj (uuid4 demo_env)"
proof (rule injI)
  fix j k :: nat
  assume "uuid4 demo_env j = uuid4 demo_env k"
  then have "length (replicate j (CHR ''x'')) = length (replicate k (CHR ''x''))"
    by (simp add: demo_env_def)
  then show "j = k" by simp
qed

section \<open>The execution counter\<close>

text \<open>
  C1, as the code has it. The statement \<^verbatim>\<open>execution_count += 1\<close> stands after the whole
  \<^verbatim>\<open>if\<close>/\<^verbatim>\<open>elif\<close> chain: every message the handler runs to completion on adds exactly one
  to the counter, whatever its type, and a message on which the handler raises leaves the
  counter as it was. For an accepted message of unknown type the one message sent is an
  \<^verbatim>\<open>execute_reply\<close> on the shell stream whose content has status \<^verbatim>\<open>error\<close> and the counter's
  value from before the message.
\<close>

theorem execution_count_every_message:
  "(fst (shell_handler env st msg) = None \<longrightarrow>
      execution_count (snd (shell_handler env st msg)) = execution_count st + 1)
   \<and> (fst (shell_handler env st msg) \<noteq> None \<longrightarrow>
      execution_count (snd (shell_handler env st msg)) = execution_count st)
   \<and> (''<IDS|MSG>'' \<notin> set pre \<and> msg = pre @ ''<IDS|MSG>'' # sg # fh # fp # fm # fc # rest
        \<and> decode env fh = Some shell_header \<and> decode env fm = Some metadata
        \<and> subscript shell_header ''msg_type'' = Inr t
        \<and> t \<noteq> JStr ''execute_request'' \<and> t \<noteq> JStr ''kernel_info_request''
        \<and> t \<noteq> JStr ''history_request''
        \<and> fst (shell_handler env st msg) = None \<longrightarrow>
      (\<exists>u s. sent (snd (shell_handler env st msg)) = sent st @
          [(Shell, envelope env (out_header env (uuid_drawn st) u s ''execute_reply'')
              shell_header metadata
              (JObj [(''status'', JStr ''error''),
                     (''execution_count'', JInt (execution_count st))]))]))"
proof (intro conjI impI)
  show "execution_count (snd (shell_handler env st msg)) = execution_count st + 1"
    if "fst (shell_handler env st msg) = None"
    using that shell_handler_count [of env st msg None "snd (shell_handler env st msg)"]
    by (metis prod.collapse)
  show "execution_count (snd (shell_handler env st msg)) = execution_count st"
    if "fst (shell_handler env st msg) \<noteq> None"
    using that shell_handler_count [of env st msg "fst (shell_handler env st msg)"
        "snd (shell_handler env st msg)"]
    by simp
next
  assume a: "''<IDS|MSG>'' \<notin> set pre \<and> msg = pre @ ''<IDS|MSG>'' # sg # fh # fp # fm # fc # rest
        \<and> decode env fh = Some shell_header \<and> decode env fm = Some metadata
        \<and> subscript shell_header ''msg_type'' = Inr t
        \<and> t \<noteq> JStr ''execute_request'' \<and> t \<noteq> JStr ''kernel_info_request''
        \<and> t \<noteq> JStr ''history_request''
        \<and> fst (shell_handler env st msg) = None"
  define st' where "st' = snd (shell_handler env st msg)"
  have run: "shell_handler env st (pre @ ''<IDS|MSG>'' # sg # fh # fp # fm # fc # rest) = (None, st')"
    using a st'_def by (metis prod.collapse)
  obtain t' u s content st'' where
    t: "subscript shell_header ''msg_type'' = Inr t'"
    and u: "subscript shell_header ''username'' = Inr u"
    and s: "subscript shell_header ''session'' = Inr s"
    and d: "dispatch env t' shell_header metadata content
       (st\<lparr>printed := printed st @ [sign env [fh, fp, fm, fc]]\<rparr>) = (None, st'')"
    and st': "st' = st''\<lparr>execution_count := execution_count st'' + 1\<rparr>"
    using shell_handler_accepted [of pre env fh shell_header fm metadata st sg fp fc rest st'] a run
    by metis
  from t a have tt: "t' = t" by simp
  have un: "t \<noteq> JStr ''execute_request''" "t \<noteq> JStr ''kernel_info_request''"
    "t \<noteq> JStr ''history_request''" using a by simp_all
  have "sent st' = sent st @
          [(Shell, envelope env (out_header env (uuid_drawn st) u s ''execute_reply'')
              shell_header metadata
              (JObj [(''status'', JStr ''error''),
                     (''execution_count'', JInt (execution_count st))]))]"
    using d st' unfolding tt dispatch_unknown_ok [OF un u s] by auto
  then show "\<exists>u s. sent (snd (shell_handler env st msg)) = sent st @
          [(Shell, envelope env (out_header env (uuid_drawn st) u s ''execute_reply'')
              shell_header metadata
              (JObj [(''status'', JStr ''error''),
                     (''execution_count'', JInt (execution_count st))]))]"
    unfolding st'_def by blast
qed

text \<open>
  The theorem at a request of the unknown type \<^verbatim>\<open>comm_open\<close> and at a message without
  delimiter.
\<close>

theorem execution_count_every_message_witness:
  "execution_count (snd (shell_handler demo_env initial_state (demo_request ''comm_open''))) =
     execution_count initial_state + 1
   \<and> execution_count (snd (shell_handler demo_env initial_state [''junk''])) =
     execution_count initial_state
   \<and> (\<exists>u s. sent (snd (shell_handler demo_env initial_state (demo_request ''comm_open''))) =
        sent initial_state @
          [(Shell, envelope demo_env
              (out_header demo_env (uuid_drawn initial_state) u s ''execute_reply'')
              (demo_request_header ''comm_open'') (JObj [])
              (JObj [(''status'', JStr ''error''),
                     (''execution_count'', JInt (execution_count initial_state))]))])"
proof -
  note a = execution_count_every_message [where env = demo_env and st = initial_state
      and msg = "demo_request ''comm_open''" and pre = "[''client'']" and sg = "''00''"
      and fh = "demo_encode (demo_request_header ''comm_open'')" and fp = "''{}''" and fm = "''{}''"
      and fc = "demo_encode (JObj [(''code'', JStr ''1+1'')])" and rest = "[]"
      and shell_header = "demo_request_header ''comm_open''" and metadata = "JObj []"
      and t = "JStr ''comm_open''"]
  note b = execution_count_every_message [where env = demo_env and st = initial_state
      and msg = "[''junk'']"]
  have ok: "fst (shell_handler demo_env initial_state (demo_request ''comm_open'')) = None"
    by (rule demo_accepted [OF demo_members(4)])
  have junk: "fst (shell_handler demo_env initial_state [''junk'']) \<noteq> None"
    by (simp add: demo_junk)
  have h: "''<IDS|MSG>'' \<notin> set [''client'']
      \<and> demo_request ''comm_open'' = [''client''] @ ''<IDS|MSG>'' # ''00''
          # demo_encode (demo_request_header ''comm_open'') # ''{}'' # ''{}''
          # demo_encode (JObj [(''code'', JStr ''1+1'')]) # []
      \<and> decode demo_env (demo_encode (demo_request_header ''comm_open'')) =
          Some (demo_request_header ''comm_open'')
      \<and> decode demo_env ''{}'' = Some (JObj [])
      \<and> subscript (demo_request_header ''comm_open'') ''msg_type'' = Inr (JStr ''comm_open'')
      \<and> JStr ''comm_open'' \<noteq> JStr ''execute_request''
      \<and> JStr ''comm_open'' \<noteq> JStr ''kernel_info_request''
      \<and> JStr ''comm_open'' \<noteq> JStr ''history_request''
      \<and> fst (shell_handler demo_env initial_state (demo_request ''comm_open'')) = None"
    using ok by (simp add: demo_request_def demo_decode_header demo_decode_empty demo_subscript)
  show ?thesis
    using a [THEN conjunct1, THEN mp, OF ok]
      b [THEN conjunct2, THEN conjunct1, THEN mp, OF junk]
      a [THEN conjunct2, THEN conjunct2, THEN mp, OF h]
    by (intro conjI)
qed

text \<open>
  C1 as stated asks for an unchanged counter after a message of unknown type. From the
  initial state the request of type \<^verbatim>\<open>comm_open\<close> is accepted and leaves the counter at 2.
\<close>

theorem unknown_type_counter_counterexample:
  "subscript (demo_request_header ''comm_open'') ''msg_type'' = Inr (JStr ''comm_open'')
   \<and> fst (shell_handler demo_env initial_state (demo_request ''comm_open'')) = None
   \<and> execution_count initial_state = 1
   \<and> execution_count (snd (shell_handler demo_env initial_state (demo_request ''comm_open''))) = 2"
proof -
  have "shell_handler demo_env initial_state (demo_request ''comm_open'') =
        (None, snd (shell_handler demo_env initial_state (demo_request ''comm_open'')))"
    using demo_accepted [OF demo_members(4)] by (metis prod.collapse)
  then have "execution_count (snd (shell_handler demo_env initial_state (demo_request ''comm_open'')))
      = execution_count initial_state + 1"
    using shell_handler_count by fastforce
  then show ?thesis
    using demo_accepted [OF demo_members(4)] by (simp add: demo_subscript initial_state_def)
qed

text \<open>
  C3, as the code has it. For every accepted \<^verbatim>\<open>execute_request\<close> the handler sends the
  \<^verbatim>\<open>pyout\<close> broadcast and then the \<^verbatim>\<open>execute_reply\<close>; both carry the value the counter had
  before the request, and the counter is incremented after they are sent. The reply's
  \<^verbatim>\<open>execution_count\<close> is therefore the post-increment value minus one.
\<close>

theorem execute_reply_count:
  assumes "''<IDS|MSG>'' \<notin> set pre"
    and "decode env fh = Some shell_header"
    and "decode env fm = Some metadata"
    and "subscript shell_header ''msg_type'' = Inr (JStr ''execute_request'')"
    and "shell_handler env st (pre @ ''<IDS|MSG>'' # sg # fh # fp # fm # fc # rest) = (None, st')"
  shows "\<exists>u s. sent st' = sent st @
          [(IOPub, envelope env (out_header env (uuid_drawn st) u s ''pyout'') shell_header metadata
              (JObj [(''execution_count'', JInt (execution_count st)),
                     (''data'', JObj [(''text/plain'', JStr ''result!'')]),
                     (''metadata'', JObj [])])),
           (Shell, envelope env (out_header env (uuid_drawn st + 1) u s ''execute_reply'')
              shell_header metadata
              (JObj [(''status'', JStr ''ok''),
                     (''execution_count'', JInt (execution_count st)),
                     (''playload'', JArr []),
                     (''user_variables'', JObj []),
                     (''user_expressions'', JObj [])]))]
        \<and> execution_count st' = execution_count st + 1"
proof -
  obtain t u s content st'' where
    t: "subscript shell_header ''msg_type'' = Inr t"
    and u: "subscript shell_header ''username'' = Inr u"
    and s: "subscript shell_header ''session'' = Inr s"
    and d: "dispatch env t shell_header metadata content
       (st\<lparr>printed := printed st @ [sign env [fh, fp, fm, fc]]\<rparr>) = (None, st'')"
    and st': "st' = st''\<lparr>execution_count := execution_count st'' + 1\<rparr>"
    using shell_handler_accepted [OF assms(1,2,3,5)] by metis
  from t assms(4) have tt: "t = JStr ''execute_request''" by simp
  obtain code where code: "subscript content ''code'' = Inr code"
    using d tt dispatch_execute_fail [of content _ env shell_header metadata]
    by (cases "subscript content ''code''") auto
  have ec: "execution_count st' = execution_count st + 1"
    using d st' unfolding tt dispatch_execute_ok [OF code u s] by auto
  have "sent st' = sent st @
          [(IOPub, envelope env (out_header env (uuid_drawn st) u s ''pyout'') shell_header metadata
              (JObj [(''execution_count'', JInt (execution_count st)),
                     (''data'', JObj [(''text/plain'', JStr ''result!'')]),
                     (''metadata'', JObj [])])),
           (Shell, envelope env (out_header env (uuid_drawn st + 1) u s ''execute_reply'')
              shell_header metadata
              (JObj [(''status'', JStr ''ok''),
                     (''execution_count'', JInt (execution_count st)),
                     (''playload'', JArr []),
                     (''user_variables'', JObj []),
                     (''user_expressions'', JObj [])]))]"
    using d st' unfolding tt dispatch_execute_ok [OF code u s] by auto
  then show ?thesis using ec by blast
qed

theorem execute_reply_count_witness:
  "\<exists>u s. sent (snd (shell_handler demo_env initial_state (demo_request ''execute_request''))) =
      sent initial_state @
          [(IOPub, envelope demo_env (out_header demo_env (uuid_drawn initial_state) u s ''pyout'')
              (demo_request_header ''execute_request'') (JObj [])
              (JObj [(''execution_count'', JInt (execution_count initial_state)),
                     (''data'', JObj [(''text/plain'', JStr ''result!'')]),
                     (''metadata'', JObj [])])),
           (Shell, envelope demo_env
              (out_header demo_env (uuid_drawn initial_state + 1) u s ''execute_reply'')
              (demo_request_header ''execute_request'') (JObj [])
              (JObj [(''status'', JStr ''ok''),
                     (''execution_count'', JInt (execution_count initial_state)),
                     (''playload'', JArr []),
                     (''user_variables'', JObj []),
                     (''user_expressions'', JObj [])]))]
        \<and> execution_count (snd (shell_handler demo_env initial_state (demo_request ''execute_request'')))
            = execution_count initial_state + 1"
  by (rule execute_reply_count [OF demo_pre demo_decode_header [OF demo_members(1)]
        demo_decode_empty demo_subscript(1) demo_run [OF demo_members(1)]])

text \<open>
  C3 as stated asks for the post-increment value in the reply. From the initial state
  the reply to the first \<^verbatim>\<open>execute_request\<close> carries 1 and the counter is 2 afterwards.
\<close>

theorem execute_reply_count_counterexample:
  "snd (shell_handler demo_env initial_state (demo_request ''execute_request'')) =
    \<lparr>execution_count = 2,
     sent =
       [(IOPub, envelope demo_env (out_header demo_env 0 (JStr ''u'') (JStr ''s'') ''pyout'')
           (demo_request_header ''execute_request'') (JObj [])
           (JObj [(''execution_count'', JInt 1),
                  (''data'', JObj [(''text/plain'', JStr ''result!'')]),
                  (''metadata'', JObj [])])),
        (Shell, envelope demo_env (out_header demo_env 1 (JStr ''u'') (JStr ''s'') ''execute_reply'')
           (demo_request_header ''execute_request'') (JObj [])
           (JObj [(''status'', JStr ''ok''),
                  (''execution_count'', JInt 1),
                  (''playload'', JArr []),
                  (''user_variables'', JObj []),
                  (''user_expressions'', JObj [])]))],
     uuid_drawn = 2,
     printed = [sign demo_env [demo_encode (demo_request_header ''execute_request''), ''{}'', ''{}'',
                               demo_encode (JObj [(''code'', JStr ''1+1'')])]]\<rparr>"
  by (simp add: demo_execute_result)

section \<open>Signatures\<close>

text \<open>
  C5. \<^verbatim>\<open>send\<close> emits the delimiter, the signature and the four serialised parts, in this
  order. The signature is the hex digest of the HMAC object made from the secret key and
  updated with the serialised header, parent header, metadata and content, one after the
  other; every character of a signature is a lowercase hexadecimal digit.
\<close>

theorem send_frames:
  "sent (send env stream header parent_header metadata content st) =
     sent st @
     [(stream,
       [''<IDS|MSG>'',
        hexdigest env
          (hmac_update env
            (hmac_update env
              (hmac_update env
                (hmac_update env (hmac_new env (secure_key env)) (encode env header))
                (encode env parent_header))
              (encode env metadata))
            (encode env content)),
        encode env header, encode env parent_header, encode env metadata, encode env content])]
   \<and> set (sign env msg_lst) \<subseteq> set ''0123456789abcdef''"
  using hexdigest_lower [of env]
  by (simp add: send_envelope envelope_def sign_def auth_def del: set_simps)

theorem send_frames_witness:
  "sent (send demo_env Shell (JObj []) (JObj []) (JObj []) (JObj []) initial_state) =
     [(Shell, [''<IDS|MSG>'', ''0302020202'', ''{}'', ''{}'', ''{}'', ''{}''])]
   \<and> set (sign demo_env [''{}'']) \<subseteq> set ''0123456789abcdef''"
  using send_frames [of demo_env Shell "JObj []" "JObj []" "JObj []" "JObj []" initial_state "[''{}'']"]
  by (simp add: hexdigest_def hex_of_byte_def hexchar_def demo_defs initial_state_def del: set_simps)

text \<open>
  C8. Two inbound messages that differ only in the frame after the first delimiter are
  handled alike: the same result, the same messages sent, the same counter, the same
  uuids drawn, the same digest printed.
\<close>

theorem signature_ignored:
  assumes "''<IDS|MSG>'' \<notin> set pre"
  shows "shell_handler env st (pre @ ''<IDS|MSG>'' # s1 # rest) =
         shell_handler env st (pre @ ''<IDS|MSG>'' # s2 # rest)"
  using shell_handler_skip [OF assms] shell_handler_sig by metis

theorem signature_ignored_witness:
  "shell_handler demo_env initial_state (demo_request ''execute_request'') =
   shell_handler demo_env initial_state
     ([''client''] @ ''<IDS|MSG>'' # ''ff'' # demo_encode (demo_request_header ''execute_request'')
        # ''{}'' # ''{}'' # demo_encode (JObj [(''code'', JStr ''1+1'')]) # [])"
  unfolding demo_request_framed by (rule signature_ignored [OF demo_pre])

text \<open>
  C2, as the code has it. The handler is fail-open: a message whose signature frame
  differs from the digest of its four part frames is handled exactly as the same message
  with the matching signature. The digest is computed over the four received frames and
  printed; it is never compared with the received signature, so nothing marks a mismatch.
  For instance a \<^verbatim>\<open>kernel_info_request\<close> with a username and a session gets its reply whatever
  its signature.
\<close>

theorem signature_mismatch_accepted:
  assumes "''<IDS|MSG>'' \<notin> set pre"
    and "signature \<noteq> sign env [fh, fp, fm, fc]"
    and "decode env fh = Some shell_header" and "decode env fp = Some parent_header"
    and "decode env fm = Some metadata" and "decode env fc = Some content"
  shows "shell_handler env st (pre @ ''<IDS|MSG>'' # signature # fh # fp # fm # fc # rest) =
         shell_handler env st (pre @ ''<IDS|MSG>'' # sign env [fh, fp, fm, fc] # fh # fp # fm # fc # rest)
       \<and> printed (snd (shell_handler env st (pre @ ''<IDS|MSG>'' # signature # fh # fp # fm # fc # rest))) =
           printed st @ [sign env [fh, fp, fm, fc]]
       \<and> (subscript shell_header ''msg_type'' = Inr (JStr ''kernel_info_request'')
            \<and> subscript shell_header ''username'' = Inr u
            \<and> subscript shell_header ''session'' = Inr s \<longrightarrow>
          fst (shell_handler env st (pre @ ''<IDS|MSG>'' # signature # fh # fp # fm # fc # rest)) = None
          \<and> length (sent (snd (shell_handler env st
                 (pre @ ''<IDS|MSG>'' # signature # fh # fp # fm # fc # rest)))) = length (sent st) + 1)"
proof (intro conjI impI)
  note fr = shell_handler_framed [OF assms(1), of env st _ fh fp fm fc rest]
  show "shell_handler env st (pre @ ''<IDS|MSG>'' # signature # fh # fp # fm # fc # rest) =
         shell_handler env st (pre @ ''<IDS|MSG>'' # sign env [fh, fp, fm, fc] # fh # fp # fm # fc # rest)"
    unfolding fr by (rule refl)
  show "printed (snd (shell_handler env st (pre @ ''<IDS|MSG>'' # signature # fh # fp # fm # fc # rest))) =
           printed st @ [sign env [fh, fp, fm, fc]]"
    using dispatch_printed [of env _ shell_header metadata content
        "st\<lparr>printed := printed st @ [sign env [fh, fp, fm, fc]]\<rparr>"]
    by (auto simp add: fr assms(3-6) split: sum.splits prod.splits option.splits)
  assume a: "subscript shell_header ''msg_type'' = Inr (JStr ''kernel_info_request'')
            \<and> subscript shell_header ''username'' = Inr u
            \<and> subscript shell_header ''session'' = Inr s"
  then have u: "subscript shell_header ''username'' = Inr u"
    and s: "subscript shell_header ''session'' = Inr s" by simp_all
  show "fst (shell_handler env st (pre @ ''<IDS|MSG>'' # signature # fh # fp # fm # fc # rest)) = None"
    using a by (simp add: fr assms(3-6) dispatch_kernel_info_ok [OF u s])
  show "length (sent (snd (shell_handler env st
                 (pre @ ''<IDS|MSG>'' # signature # fh # fp # fm # fc # rest)))) = length (sent st) + 1"
    using a by (simp add: fr assms(3-6) dispatch_kernel_info_ok [OF u s])
qed

theorem signature_mismatch_accepted_witness:
  "shell_handler demo_env initial_state (demo_request ''kernel_info_request'') =
     shell_handler demo_env initial_state
       ([''client''] @ ''<IDS|MSG>''
         # sign demo_env [demo_encode (demo_request_header ''kernel_info_request''), ''{}'', ''{}'',
                          demo_encode (JObj [(''code'', JStr ''1+1'')])]
         # demo_encode (demo_request_header ''kernel_info_request'') # ''{}'' # ''{}''
         # demo_encode (JObj [(''code'', JStr ''1+1'')]) # [])
   \<and> printed (snd (shell_handler demo_env initial_state (demo_request ''kernel_info_request''))) =
       printed initial_state @
         [sign demo_env [demo_encode (demo_request_header ''kernel_info_request''), ''{}'', ''{}'',
                         demo_encode (JObj [(''code'', JStr ''1+1'')])]]
   \<and> fst (shell_handler demo_env initial_state (demo_request ''kernel_info_request'')) = None
   \<and> length (sent (snd (shell_handler demo_env initial_state (demo_request ''kernel_info_request'')))) =
       length (sent initial_state) + 1"
proof -
  have m: "''00'' \<noteq> sign demo_env [demo_encode (demo_request_header ''kernel_info_request''), ''{}'', ''{}'',
                           demo_encode (JObj [(''code'', JStr ''1+1'')])]"
    by (simp add: sign_def hexdigest_def auth_def hex_of_byte_def hexchar_def demo_defs)
  note a = signature_mismatch_accepted [OF demo_pre m demo_decode_header [OF demo_members(2)]
      demo_decode_empty demo_decode_empty demo_decode_code,
      where st = initial_state and rest = "[]" and u = "JStr ''u''" and s = "JStr ''s''"]
  have h: "subscript (demo_request_header ''kernel_info_request'') ''msg_type'' =
             Inr (JStr ''kernel_info_request'')
         \<and> subscript (demo_request_header ''kernel_info_request'') ''username'' = Inr (JStr ''u'')
         \<and> subscript (demo_request_header ''kernel_info_request'') ''session'' = Inr (JStr ''s'')"
    by (simp add: demo_subscript)
  show ?thesis
    using a [THEN conjunct1] a [THEN conjunct2, THEN conjunct1]
      a [THEN conjunct2, THEN conjunct2, THEN mp, OF h]
    unfolding demo_request_framed by (intro conjI) simp_all
qed

text \<open>
  C2 as stated asks that a message with a wrong signature gets no reply. The concrete
  \<^verbatim>\<open>kernel_info_request\<close> carries the signature \<^verbatim>\<open>00\<close>, which is not the digest of its parts;
  it is accepted and one message is sent.
\<close>

theorem signature_mismatch_counterexample:
  "''00'' \<noteq> sign demo_env [demo_encode (demo_request_header ''kernel_info_request''), ''{}'', ''{}'',
                           demo_encode (JObj [(''code'', JStr ''1+1'')])]
   \<and> fst (shell_handler demo_env initial_state (demo_request ''kernel_info_request'')) = None
   \<and> length (sent (snd (shell_handler demo_env initial_state (demo_request ''kernel_info_request'')))) = 1
   \<and> sent initial_state = []"
proof -
  have a: "''00'' \<noteq> sign demo_env [demo_encode (demo_request_header ''kernel_info_request''), ''{}'', ''{}'',
                           demo_encode (JObj [(''code'', JStr ''1+1'')])]"
    by (simp add: sign_def hexdigest_def auth_def hex_of_byte_def hexchar_def demo_defs)
  have b: "length (sent (snd (shell_handler demo_env initial_state (demo_request ''kernel_info_request'')))) = 1"
    unfolding demo_request_framed shell_handler_framed [OF demo_pre]
    using dispatch_kernel_info_ok [OF demo_subscript(2,3), of demo_env "''kernel_info_request''" "JObj []"]
    by (simp add: demo_decode_header demo_decode_empty demo_decode_code demo_subscript
        initial_state_def)
  show ?thesis using a b demo_accepted [OF demo_members(2)] by (simp add: initial_state_def)
qed

section \<open>Malformed messages\<close>

text \<open>
  C4, as the code has it. When one of the four part frames does not decode, the decoder's
  ValueError leaves the handler: nothing is sent and the state, counter included, is
  unchanged. \<^verbatim>\<open>run_thread\<close> does not absorb such an error either: with the shut-down flag
  unset, a ValueError that leaves \<^verbatim>\<open>loop.start()\<close> is raised again and ends the loop.
\<close>

theorem undecodable_part_raises:
  assumes "''<IDS|MSG>'' \<notin> set pre"
    and "decode env fh = None \<or> decode env fp = None \<or> decode env fm = None \<or> decode env fc = None"
  shows "shell_handler env st (pre @ ''<IDS|MSG>'' # sg # fh # fp # fm # fc # rest) = (Some ValueError, st)
       \<and> run_thread False (Raises ValueError # calls) = Raised ValueError"
  using assms(2) unfolding shell_handler_framed [OF assms(1)]
  by (auto split: option.splits)

theorem undecodable_part_raises_witness:
  "shell_handler demo_env initial_state
     ([''client''] @ ''<IDS|MSG>'' # ''00'' # demo_encode (demo_request_header ''execute_request'')
        # ''{}'' # ''{}'' # ''{nope'' # []) = (Some ValueError, initial_state)
   \<and> run_thread False (Raises ValueError # []) = Raised ValueError"
proof -
  have h: "decode demo_env (demo_encode (demo_request_header ''execute_request'')) = None
     \<or> decode demo_env ''{}'' = None \<or> decode demo_env ''{}'' = None
     \<or> decode demo_env ''{nope'' = None"
    by (simp add: demo_decode_bad)
  show ?thesis by (rule undecodable_part_raises [OF demo_pre h])
qed

text \<open>
  C4 as stated asks for a normal return after an error reply. The concrete request whose
  content frame is \<^verbatim>\<open>{nope\<close> makes the handler raise ValueError with nothing sent.
\<close>

theorem undecodable_part_counterexample:
  "shell_handler demo_env initial_state
     [''client'', ''<IDS|MSG>'', ''00'', demo_encode (demo_request_header ''execute_request''),
      ''{}'', ''{}'', ''{nope''] = (Some ValueError, initial_state)
   \<and> sent initial_state = []"
proof -
  have "shell_handler demo_env initial_state
     ([''client''] @ ''<IDS|MSG>'' # ''00'' # demo_encode (demo_request_header ''execute_request'')
        # ''{}'' # ''{}'' # ''{nope'' # []) = (Some ValueError, initial_state)"
    unfolding shell_handler_framed [OF demo_pre]
    by (simp add: demo_decode_header demo_decode_empty demo_decode_bad)
  then show ?thesis by (simp add: initial_state_def)
qed

text \<open>
  C9. A message without a delimiter frame makes the scan run off the end of the frame
  list (IndexError). A message that has a delimiter frame followed by at least five frames
  never raises IndexError, and only such a message is handled to completion. When fewer
  than five frames follow the first delimiter and those after the signature decode, the
  handler reads past the end as well.
\<close>

theorem delimiter_scan_range:
  "(''<IDS|MSG>'' \<notin> set msg \<longrightarrow> shell_handler env st msg = (Some IndexError, st))
   \<and> ((\<exists>pre rest. msg = pre @ ''<IDS|MSG>'' # rest \<and> 5 \<le> length rest) \<longrightarrow>
        fst (shell_handler env st msg) \<noteq> Some IndexError)
   \<and> (fst (shell_handler env st msg) = None \<longrightarrow>
        (\<exists>pre rest. msg = pre @ ''<IDS|MSG>'' # rest \<and> 5 \<le> length rest))
   \<and> (''<IDS|MSG>'' \<notin> set pre' \<and> msg = pre' @ ''<IDS|MSG>'' # rest' \<and> length rest' < 5
        \<and> (\<forall>f \<in> set (tl rest'). decode env f \<noteq> None) \<longrightarrow>
        shell_handler env st msg = (Some IndexError, st))"
proof (intro conjI impI)
  assume "''<IDS|MSG>'' \<notin> set msg"
  then show "shell_handler env st msg = (Some IndexError, st)"
    by (simp add: shell_handler_def scan_delim_none)
next
  assume "\<exists>pre rest. msg = pre @ ''<IDS|MSG>'' # rest \<and> 5 \<le> length rest"
  then show "fst (shell_handler env st msg) \<noteq> Some IndexError"
    using envelope_not_IndexError by blast
next
  assume "fst (shell_handler env st msg) = None"
  then show "\<exists>pre rest. msg = pre @ ''<IDS|MSG>'' # rest \<and> 5 \<le> length rest"
    by (rule accepted_has_envelope)
next
  assume "''<IDS|MSG>'' \<notin> set pre' \<and> msg = pre' @ ''<IDS|MSG>'' # rest' \<and> length rest' < 5
        \<and> (\<forall>f \<in> set (tl rest'). decode env f \<noteq> None)"
  then show "shell_handler env st msg = (Some IndexError, st)"
    using short_envelope [of pre' rest' env st] by blast
qed

theorem delimiter_scan_range_witness:
  "shell_handler demo_env initial_state [''junk''] = (Some IndexError, initial_state)
   \<and> fst (shell_handler demo_env initial_state (demo_request ''history_request'')) \<noteq> Some IndexError
   \<and> (\<exists>pre rest. demo_request ''history_request'' = pre @ ''<IDS|MSG>'' # rest \<and> 5 \<le> length rest)
   \<and> shell_handler demo_env initial_state [''client'', ''<IDS|MSG>'', ''00'', ''{}'', ''{}''] =
       (Some IndexError, initial_state)"
proof -
  note a = delimiter_scan_range [where env = demo_env and st = initial_state and msg = "[''junk'']"]
  note b = delimiter_scan_range [where env = demo_env and st = initial_state
      and msg = "demo_request ''history_request''"]
  note c = delimiter_scan_range [where env = demo_env and st = initial_state
      and msg = "[''client'', ''<IDS|MSG>'', ''00'', ''{}'', ''{}'']" and pre' = "[''client'']"
      and rest' = "[''00'', ''{}'', ''{}'']"]
  have h1: "''<IDS|MSG>'' \<notin> set [''junk'']" by simp
  have h2: "\<exists>pre rest. demo_request ''history_request'' = pre @ ''<IDS|MSG>'' # rest \<and> 5 \<le> length rest"
    unfolding demo_request_framed by (intro exI conjI) (rule refl, simp)
  have h3: "fst (shell_handler demo_env initial_state (demo_request ''history_request'')) = None"
    by (rule demo_accepted [OF demo_members(3)])
  have h4: "''<IDS|MSG>'' \<notin> set [''client'']
      \<and> [''client'', ''<IDS|MSG>'', ''00'', ''{}'', ''{}''] =
          [''client''] @ ''<IDS|MSG>'' # [''00'', ''{}'', ''{}'']
      \<and> length [''00'', ''{}'', ''{}''] < 5
      \<and> (\<forall>f \<in> set (tl [''00'', ''{}'', ''{}'']). decode demo_env f \<noteq> None)"
    by (simp add: demo_decode_empty)
  show ?thesis
    using a [THEN conjunct1, THEN mp, OF h1] b [THEN conjunct2, THEN conjunct1, THEN mp, OF h2]
      b [THEN conjunct2, THEN conjunct2, THEN conjunct1, THEN mp, OF h3]
      c [THEN conjunct2, THEN conjunct2, THEN conjunct2, THEN mp, OF h4]
    by (intro conjI)
qed

section \<open>Replies\<close>

text \<open>
  C6. Messages are sent only for a request the handler accepts. Every message an accepted
  request makes the handler send has the request's decoded header as its parent header
  (and the request's metadata), the request's username and session in its header, and as
  its \<^verbatim>\<open>msg_id\<close> a uuid drawn from the generator during this call: the messages use the
  draws from \<open>uuid_drawn st\<close> up to the final \<open>uuid_drawn\<close>, one each and in order, so
  the ids do not depend on the request, and they are pairwise different when the
  generator never repeats itself.
\<close>

theorem reply_headers:
  "(fst (shell_handler env st msg) \<noteq> None \<longrightarrow> sent (snd (shell_handler env st msg)) = sent st)
   \<and> (''<IDS|MSG>'' \<notin> set pre \<and> msg = pre @ ''<IDS|MSG>'' # sg # fh # fp # fm # fc # rest
        \<and> decode env fh = Some shell_header \<and> decode env fm = Some metadata
        \<and> fst (shell_handler env st msg) = None \<longrightarrow>
      (\<exists>u s outs.
           subscript shell_header ''username'' = Inr u
         \<and> subscript shell_header ''session'' = Inr s
         \<and> outs \<noteq> []
         \<and> sent (snd (shell_handler env st msg)) = sent st @
             map (\<lambda>(k, stream, ty, c).
                    (stream, envelope env (out_header env k u s ty) shell_header metadata c)) outs
         \<and> map fst outs = [uuid_drawn st ..< uuid_drawn (snd (shell_handler env st msg))]
         \<and> (inj (uuid4 env) \<longrightarrow> distinct (map (\<lambda>(k, stream, ty, c). uuid4 env k) outs))))"
proof (intro conjI impI)
  assume "fst (shell_handler env st msg) \<noteq> None"
  then obtain e where "shell_handler env st msg = (Some e, snd (shell_handler env st msg))"
    by (metis not_None_eq prod.collapse)
  then show "sent (snd (shell_handler env st msg)) = sent st"
    by (rule shell_handler_raise_sent)
next
  assume a: "''<IDS|MSG>'' \<notin> set pre \<and> msg = pre @ ''<IDS|MSG>'' # sg # fh # fp # fm # fc # rest
        \<and> decode env fh = Some shell_header \<and> decode env fm = Some metadata
        \<and> fst (shell_handler env st msg) = None"
  then have run: "shell_handler env st (pre @ ''<IDS|MSG>'' # sg # fh # fp # fm # fc # rest) =
      (None, snd (shell_handler env st msg))"
    by (metis prod.collapse)
  show "\<exists>u s outs.
           subscript shell_header ''username'' = Inr u
         \<and> subscript shell_header ''session'' = Inr s
         \<and> outs \<noteq> []
         \<and> sent (snd (shell_handler env st msg)) = sent st @
             map (\<lambda>(k, stream, ty, c).
                    (stream, envelope env (out_header env k u s ty) shell_header metadata c)) outs
         \<and> map fst outs = [uuid_drawn st ..< uuid_drawn (snd (shell_handler env st msg))]
         \<and> (inj (uuid4 env) \<longrightarrow> distinct (map (\<lambda>(k, stream, ty, c). uuid4 env k) outs))"
    using a by (intro reply_headers_accepted [OF _ _ _ run]) simp_all
qed

theorem reply_headers_witness:
  "sent (snd (shell_handler demo_env initial_state [''junk''])) = sent initial_state
   \<and> (\<exists>u s outs.
      subscript (demo_request_header ''execute_request'') ''username'' = Inr u
    \<and> subscript (demo_request_header ''execute_request'') ''session'' = Inr s
    \<and> outs \<noteq> []
    \<and> sent (snd (shell_handler demo_env initial_state (demo_request ''execute_request''))) =
        sent initial_state @
        map (\<lambda>(k, stream, ty, c).
               (stream, envelope demo_env (out_header demo_env k u s ty)
                  (demo_request_header ''execute_request'') (JObj []) c)) outs
    \<and> map fst outs = [uuid_drawn initial_state ..<
         uuid_drawn (snd (shell_handler demo_env initial_state (demo_request ''execute_request'')))]
    \<and> distinct (map (\<lambda>(k, stream, ty, c). uuid4 demo_env k) outs))"
proof -
  note a = reply_headers [where env = demo_env and st = initial_state and msg = "[''junk'']"]
  note b = reply_headers [where env = demo_env and st = initial_state
      and msg = "demo_request ''execute_request''" and pre = "[''client'']" and sg = "''00''"
      and fh = "demo_encode (demo_request_header ''execute_request'')" and fp = "''{}''"
      and fm = "''{}''" and fc = "demo_encode (JObj [(''code'', JStr ''1+1'')])" and rest = "[]"
      and shell_header = "demo_request_header ''execute_request''" and metadata = "JObj []"]
  have junk: "fst (shell_handler demo_env initial_state [''junk'']) \<noteq> None"
    by (simp add: demo_junk)
  have h: "''<IDS|MSG>'' \<notin> set [''client'']
      \<and> demo_request ''execute_request'' = [''client''] @ ''<IDS|MSG>'' # ''00''
          # demo_encode (demo_request_header ''execute_request'') # ''{}'' # ''{}''
          # demo_encode (JObj [(''code'', JStr ''1+1'')]) # []
      \<and> decode demo_env (demo_encode (demo_request_header ''execute_request'')) =
          Some (demo_request_header ''execute_request'')
      \<and> decode demo_env ''{}'' = Some (JObj [])
      \<and> fst (shell_handler demo_env initial_state (demo_request ''execute_request'')) = None"
    using demo_accepted [OF demo_members(1)]
    by (simp add: demo_request_def demo_decode_header demo_decode_empty)
  show ?thesis
    using a [THEN conjunct1, THEN mp, OF junk] b [THEN conjunct2, THEN mp, OF h] demo_uuid_inj
    by blast
qed

text \<open>
  C10. An accepted \<^verbatim>\<open>history_request\<close> is answered by exactly one message, on the shell
  stream, whose header has the type \<^verbatim>\<open>kernel_info_reply\<close> and whose content is the dict
  with the single item \<^verbatim>\<open>output\<close>: false.
\<close>

theorem history_reply:
  assumes "''<IDS|MSG>'' \<notin> set pre"
    and "decode env fh = Some shell_header"
    and "decode env fm = Some metadata"
    and "subscript shell_header ''msg_type'' = Inr (JStr ''history_request'')"
    and "shell_handler env st (pre @ ''<IDS|MSG>'' # sg # fh # fp # fm # fc # rest) = (None, st')"
  shows "\<exists>u s. subscript shell_header ''username'' = Inr u
           \<and> subscript shell_header ''session'' = Inr s
           \<and> sent st' = sent st @
               [(Shell, envelope env (out_header env (uuid_drawn st) u s ''kernel_info_reply'')
                   shell_header metadata (JObj [(''output'', JBool False)]))]"
proof -
  obtain t u s content st'' where
    t: "subscript shell_header ''msg_type'' = Inr t"
    and u: "subscript shell_header ''username'' = Inr u"
    and s: "subscript shell_header ''session'' = Inr s"
    and d: "dispatch env t shell_header metadata content
       (st\<lparr>printed := printed st @ [sign env [fh, fp, fm, fc]]\<rparr>) = (None, st'')"
    and st': "st' = st''\<lparr>execution_count := execution_count st'' + 1\<rparr>"
    using shell_handler_accepted [OF assms(1,2,3,5)] by metis
  from t assms(4) have "t = JStr ''history_request''" by simp
  with d have "sent st'' = sent st @
               [(Shell, envelope env (out_header env (uuid_drawn st) u s ''kernel_info_reply'')
                   shell_header metadata (JObj [(''output'', JBool False)]))]"
    using dispatch_history_ok [OF u s, of env metadata content] by auto
  then show ?thesis using u s st' by simp
qed

theorem history_reply_witness:
  "\<exists>u s. subscript (demo_request_header ''history_request'') ''username'' = Inr u
         \<and> subscript (demo_request_header ''history_request'') ''session'' = Inr s
         \<and> sent (snd (shell_handler demo_env initial_state (demo_request ''history_request''))) =
             sent initial_state @
               [(Shell, envelope demo_env
                   (out_header demo_env (uuid_drawn initial_state) u s ''kernel_info_reply'')
                   (demo_request_header ''history_request'') (JObj [])
                   (JObj [(''output'', JBool False)]))]"
  by (rule history_reply [OF demo_pre demo_decode_header [OF demo_members(3)]
        demo_decode_empty demo_subscript(1) demo_run [OF demo_members(3)]])

section \<open>Failures in the run loops\<close>

text \<open>
  C7, as the code has it. \<^verbatim>\<open>run_thread\<close> waits again after a ZMQError whose errno is EINTR,
  whatever the shut-down flag. \<^verbatim>\<open>heartbeat_loop\<close> tests the flag before each wait: with the
  flag set it leaves quietly without waiting, with the flag unset it waits again after
  EINTR. A ZMQError with another errno is raised again by \<^verbatim>\<open>run_thread\<close> whether or not the
  flag is set, and by \<^verbatim>\<open>heartbeat_loop\<close> when the flag is unset. What is not an
  \<^verbatim>\<open>Exception\<close> (KeyboardInterrupt, SystemExit) leaves \<^verbatim>\<open>run_thread\<close> whether or not the flag is
  set. Every other exception ends \<^verbatim>\<open>run_thread\<close> quietly when the flag is set and is raised
  again when it is not. With the flag unset \<^verbatim>\<open>heartbeat_loop\<close> lets through everything that
  is not a ZMQError.
\<close>

theorem run_loop_failures:
  "run_thread exiting (Raises (ZMQError EINTR) # rest) = run_thread exiting rest
   \<and> heartbeat_loop False (Raises (ZMQError EINTR) # rest) = heartbeat_loop False rest
   \<and> heartbeat_loop True calls = Exited
   \<and> (errno \<noteq> EINTR \<longrightarrow>
        run_thread exiting (Raises (ZMQError errno) # rest) = Raised (ZMQError errno)
        \<and> heartbeat_loop False (Raises (ZMQError errno) # rest) = Raised (ZMQError errno))
   \<and> run_thread exiting (Raises (BaseException n) # rest) = Raised (BaseException n)
   \<and> ((\<forall>k. e \<noteq> ZMQError k) \<and> (\<forall>k. e \<noteq> BaseException k) \<longrightarrow>
        run_thread exiting (Raises e # rest) = (if exiting then Exited else Raised e))
   \<and> ((\<forall>k. e \<noteq> ZMQError k) \<longrightarrow> heartbeat_loop False (Raises e # rest) = Raised e)"
  by (cases e) simp_all

theorem run_loop_failures_witness:
  "run_thread True (Raises (ZMQError 9) # []) = Raised (ZMQError 9)
   \<and> heartbeat_loop False (Raises (ZMQError 9) # []) = Raised (ZMQError 9)
   \<and> run_thread True (Raises ValueError # []) = Exited
   \<and> run_thread False (Raises ValueError # []) = Raised ValueError
   \<and> heartbeat_loop False (Raises ValueError # []) = Raised ValueError"
proof -
  have h1: "9 \<noteq> EINTR" by (simp add: EINTR_def)
  have h2: "(\<forall>k. ValueError \<noteq> ZMQError k) \<and> (\<forall>k. ValueError \<noteq> BaseException k)" by simp
  have h3: "\<forall>k. ValueError \<noteq> ZMQError k" by simp
  note a = run_loop_failures [where errno = 9 and e = ValueError and rest = "[]" and exiting = True]
  note b = run_loop_failures [where errno = 9 and e = ValueError and rest = "[]" and exiting = False]
  show ?thesis
    using a [THEN conjunct2, THEN conjunct2, THEN conjunct2, THEN conjunct1, THEN mp, OF h1]
      a [THEN conjunct2, THEN conjunct2, THEN conjunct2, THEN conjunct2, THEN conjunct2,
         THEN conjunct1, THEN mp, OF h2]
      b [THEN conjunct2, THEN conjunct2, THEN conjunct2, THEN conjunct2, THEN conjunct2,
         THEN conjunct1, THEN mp, OF h2]
      b [THEN conjunct2, THEN conjunct2, THEN conjunct2, THEN conjunct2, THEN conjunct2,
         THEN conjunct2, THEN mp, OF h3]
    by simp
qed

text \<open>
  C7 as stated asks for a quiet exit on every failure other than EINTR once the flag is
  set. A ZMQError with errno 9 ends \<^verbatim>\<open>run_thread\<close> with the error although the flag is set.
\<close>

theorem run_thread_exiting_counterexample:
  "9 \<noteq> EINTR \<and> run_thread True [Raises (ZMQError 9)] = Raised (ZMQError 9)"
  by (simp add: EINTR_def)

end
